theory Spec2Isabelle
  imports Complex_Main "HOL-Library.Word"
begin

section \<open>Errors as values\<close>

text \<open>
  Every exception that \<^verbatim>\<open>dicomfunctions.py\<close> can raise is a value of \<open>error\<close>; a function
  that may raise returns \<open>error + 'a\<close> with \<open>Inl\<close> for the exception. NumPy reports a
  broadcasting or reshaping mismatch as \<^verbatim>\<open>ValueError\<close>; the specification calls that
  failure DataLengthError. \<open>GeometryError\<close> is raised by the orientation calculation only,
  \<open>DecodeError\<close> by the external file decoder.
\<close>

datatype error = KeyError | IndexError | AttributeError | TypeError | ValueError
  | GeometryError | DecodeError

definition bindE :: "error + 'a \<Rightarrow> ('a \<Rightarrow> error + 'b) \<Rightarrow> error + 'b" where
  "bindE m f = (case m of Inl e \<Rightarrow> Inl e | Inr x \<Rightarrow> f x)"

section \<open>The decoded DICOM image\<close>

text \<open>
  The external decoder (\<^verbatim>\<open>nibabel.nicom.dicomwrappers.wrapper_from_file\<close>) hands over a
  wrapper with a CSA tag dictionary (\<^verbatim>\<open>img.csa_header['tags']\<close>), flat DICOM attributes
  (\<^verbatim>\<open>img.dcm_data.X\<close>) and the raw element \<^verbatim>\<open>(7fe1,1010)\<close>. CSA items are typed by their
  value representation: integers (unsigned counts, here naturals), floats (here reals) or
  strings. The raw element is modelled after \<^verbatim>\<open>np.frombuffer(..., dtype=np.single)\<close>: the
  list of its float32 values, read as reals; its length counts float32 elements. Floating
  point numbers are read as the reals they denote throughout (no NaN, no infinities), so
  that Python's \<^verbatim>\<open>==\<close> on them is equality. The flat attributes are typed by their value
  representation as well: on a text attribute \<^verbatim>\<open>str\<close> changes nothing, on the patient
  weight \<^verbatim>\<open>float\<close> changes nothing; \<^verbatim>\<open>PatientName.family_name\<close> is one field.
\<close>

datatype pyval = PInt nat | PFloat real | PStr string | PList "string list"

record csa_tag =
  n_items :: nat
  items :: "pyval list"

record dcm_data =
  Manufacturer :: "string option"
  ManufacturerModelName :: "string option"
  DeviceSerialNumber :: "string option"
  SoftwareVersions :: "string option"
  InstitutionName :: "string option"
  InstitutionAddress :: "string option"
  ProtocolName :: "string option"
  SeriesDescription :: "string option"
  PatientPosition :: "string option"
  PatientName_family_name :: "string option"
  PatientWeight :: "real option"
  PatientBirthDate :: "string option"
  PatientSex :: "string option"
  elem_7fe1_1010 :: "real list option"

record dicom_img =
  csa_tags :: "string \<rightharpoonup> csa_tag"
  dcm :: dcm_data

text \<open>\<^verbatim>\<open>img.csa_header['tags'][t]['items']\<close>: a missing tag is a KeyError.\<close>

definition csa_items :: "dicom_img \<Rightarrow> string \<Rightarrow> error + pyval list" where
  "csa_items img t = (case csa_tags img t of None \<Rightarrow> Inl KeyError | Some tg \<Rightarrow> Inr (items tg))"

definition csa_n_items :: "dicom_img \<Rightarrow> string \<Rightarrow> error + nat" where
  "csa_n_items img t = (case csa_tags img t of None \<Rightarrow> Inl KeyError | Some tg \<Rightarrow> Inr (n_items tg))"

text \<open>\<^verbatim>\<open>xs[i]\<close> for a non-negative index: out of range is an IndexError.\<close>

definition getitem :: "'a list \<Rightarrow> nat \<Rightarrow> error + 'a" where
  "getitem xs i = (if i < length xs then Inr (xs ! i) else Inl IndexError)"

definition csa_item :: "dicom_img \<Rightarrow> string \<Rightarrow> nat \<Rightarrow> error + pyval" where
  "csa_item img t i = bindE (csa_items img t) (\<lambda>its. getitem its i)"

text \<open>\<^verbatim>\<open>img.dcm_data.X\<close>: an absent attribute is an AttributeError.\<close>

definition attr :: "'a option \<Rightarrow> error + 'a" where
  "attr a = (case a of None \<Rightarrow> Inl AttributeError | Some v \<Rightarrow> Inr v)"

text \<open>Numeric reading of an item, as NumPy and float arithmetic take it; a string is a TypeError.\<close>

fun to_real :: "pyval \<Rightarrow> error + real" where
  "to_real (PInt n) = Inr (real n)"
| "to_real (PFloat x) = Inr x"
| "to_real (PStr s) = Inl TypeError"
| "to_real (PList l) = Inl TypeError"

fun to_count :: "pyval \<Rightarrow> error + nat" where
  "to_count (PInt n) = Inr n"
| "to_count (PFloat x) = Inl TypeError"
| "to_count (PStr s) = Inl TypeError"
| "to_count (PList l) = Inl TypeError"

fun mapE :: "('a \<Rightarrow> error + 'b) \<Rightarrow> 'a list \<Rightarrow> error + 'b list" where
  "mapE f [] = Inr []"
| "mapE f (x # xs) = bindE (f x) (\<lambda>y. bindE (mapE f xs) (\<lambda>ys. Inr (y # ys)))"

section \<open>NumPy arrays\<close>

text \<open>
  An n-dimensional array is its shape and its elements in C (row-major) order. The element
  at a multi-index is found by the usual row-major offset.
\<close>

record 'a ndarray =
  shape :: "nat list"
  flat :: "'a list"

fun ravel :: "nat list \<Rightarrow> nat list \<Rightarrow> nat" where
  "ravel sh idx = foldl (\<lambda>acc (n, i). acc * n + i) 0 (zip sh idx)"

definition valid_index :: "nat list \<Rightarrow> nat list \<Rightarrow> bool" where
  "valid_index sh idx = list_all2 (\<lambda>i n. i < n) idx sh"

definition nd_at :: "'a ndarray \<Rightarrow> nat list \<Rightarrow> 'a" where
  "nd_at a idx = flat a ! ravel (shape a) idx"

text \<open>The slices \<^verbatim>\<open>x[0::2]\<close> and \<^verbatim>\<open>x[1::2]\<close>.\<close>

fun slice_0_2 :: "'a list \<Rightarrow> 'a list" where
  "slice_0_2 [] = []"
| "slice_0_2 [x] = [x]"
| "slice_0_2 (x # y # xs) = x # slice_0_2 xs"

fun slice_1_2 :: "'a list \<Rightarrow> 'a list" where
  "slice_1_2 [] = []"
| "slice_1_2 [x] = []"
| "slice_1_2 (x # y # xs) = y # slice_1_2 xs"

text \<open>
  Elementwise subtraction of two one-dimensional arrays under NumPy's broadcasting rule:
  equal lengths pair up, an operand of length one is stretched to the other's length
  (also to length zero), anything else is a ValueError.
\<close>

definition np_sub_1d :: "complex list \<Rightarrow> complex list \<Rightarrow> error + complex list" where
  "np_sub_1d a b =
     (if length a = length b then Inr (map2 (-) a b)
      else if length a = 1 then Inr (map (\<lambda>y. hd a - y) b)
      else if length b = 1 then Inr (map (\<lambda>x. x - hd b) a)
      else Inl ValueError)"

text \<open>\<^verbatim>\<open>specData[0::2] - 1j * specData[1::2]\<close> (lines 112 and 136).\<close>

definition decode_complex :: "real list \<Rightarrow> error + complex ndarray" where
  "decode_complex specData =
     bindE (np_sub_1d (map complex_of_real (slice_0_2 specData))
                      (map (\<lambda>x. \<i> * complex_of_real x) (slice_1_2 specData)))
       (\<lambda>d. Inr \<lparr>shape = [length d], flat = d\<rparr>)"

text \<open>\<^verbatim>\<open>a.reshape(newshape)\<close> for non-negative dimensions: the sizes must agree.\<close>

definition np_reshape :: "'a ndarray \<Rightarrow> nat list \<Rightarrow> error + 'a ndarray" where
  "np_reshape a newshape =
     (if prod_list newshape = length (flat a) then Inr \<lparr>shape = newshape, flat = flat a\<rparr>
      else Inl ValueError)"

text \<open>
  \<^verbatim>\<open>np.moveaxis(a, (0, 1, 2), (2, 1, 0))\<close> on a four-dimensional array. NumPy computes
  the axis order \<open>[2, 1, 0, 3]\<close> and transposes: axis \<open>i\<close> of the result is axis
  \<open>order[i]\<close> of the argument. The elements are listed in the C order of the result.
\<close>

definition np_moveaxis_012_210 :: "'a ndarray \<Rightarrow> error + 'a ndarray" where
  "np_moveaxis_012_210 a =
     (case shape a of
        [n0, n1, n2, n3] \<Rightarrow>
          Inr \<lparr>shape = [n2, n1, n0, n3],
               flat = concat (map (\<lambda>i2. concat (map (\<lambda>i1. concat (map (\<lambda>i0.
                        map (\<lambda>i3. nd_at a [i0, i1, i2, i3]) [0..<n3])
                        [0..<n0])) [0..<n1])) [0..<n2])\<rparr>
      | _ \<Rightarrow> Inl ValueError)"

text \<open>
  \<^verbatim>\<open>np.stack(arrays, axis=-1)\<close>: at least one array, all of one shape; the result has one
  more trailing axis, along which the arrays lie in the order of the list.
\<close>

definition np_stack_last :: "'a ndarray list \<Rightarrow> error + 'a ndarray" where
  "np_stack_last arrays =
     (case arrays of
        [] \<Rightarrow> Inl ValueError
      | a # _ \<Rightarrow>
          if \<forall>b \<in> set arrays. shape b = shape a
          then Inr \<lparr>shape = shape a @ [length arrays],
                    flat = concat (map (\<lambda>p. map (\<lambda>b. flat b ! p) arrays) [0..<prod_list (shape a)])\<rparr>
          else Inl ValueError)"

text \<open>
  \<^verbatim>\<open>np.prod\<close> of a list of Python integers: NumPy holds them as 64-bit signed integers
  and multiplies with silent wrap-around.
\<close>

definition np_prod :: "nat list \<Rightarrow> int" where
  "np_prod xs = sint (foldl (\<lambda>acc x. acc * word_of_nat x) (1 :: 64 word) xs)"

section \<open>Header extension, orientation object and output unit\<close>

text \<open>
  Modelled from the spec: the class \<^verbatim>\<open>hdr_ext\<close> of \<^verbatim>\<open>spec2nii.nifti_mrs\<close> is not among
  the sources. The specification describes it as a store built from the imaging frequency
  and the nucleus, with standard fields (key and value) and user fields (key, value and
  documentation string); a dimension label is kept per extra axis. The keys this module
  writes are taken to be in the declared schema, so storing never fails.
\<close>

record hdr_ext =
  SpectrometerFrequency :: pyval
  ResonantNucleus :: pyval
  standard_defs :: "string \<rightharpoonup> pyval"
  user_defs :: "string \<rightharpoonup> pyval \<times> string"
  dim_info :: "nat \<rightharpoonup> string"

definition hdr_ext_init :: "pyval \<Rightarrow> pyval \<Rightarrow> hdr_ext" where
  "hdr_ext_init freq nucleus =
     \<lparr>SpectrometerFrequency = freq, ResonantNucleus = nucleus,
      standard_defs = Map.empty, user_defs = Map.empty, dim_info = Map.empty\<rparr>"

definition set_standard_def :: "string \<Rightarrow> pyval \<Rightarrow> hdr_ext \<Rightarrow> hdr_ext" where
  "set_standard_def key v obj = obj\<lparr>standard_defs := (standard_defs obj)(key \<mapsto> v)\<rparr>"

definition set_user_def :: "string \<Rightarrow> pyval \<Rightarrow> string \<Rightarrow> hdr_ext \<Rightarrow> hdr_ext" where
  "set_user_def key v doc obj = obj\<lparr>user_defs := (user_defs obj)(key \<mapsto> (v, doc))\<rparr>"

definition set_dim_info :: "nat \<Rightarrow> string \<Rightarrow> hdr_ext \<Rightarrow> hdr_ext" where
  "set_dim_info i tag obj = obj\<lparr>dim_info := (dim_info obj)(i \<mapsto> tag)\<rparr>"

text \<open>
  Modelled from the spec: the class \<^verbatim>\<open>NIFTIOrient\<close> of \<^verbatim>\<open>spec2nii.nifti_orientation\<close> is
  not among the sources. This module reads only its attribute \<^verbatim>\<open>Q44\<close>, the 4 by 4 matrix it
  was built from (the specification's OrientationMatrix), as rows of reals.
\<close>

datatype NIFTIOrient = NIFTIOrient (Q44: "real list list")

text \<open>
  Modelled from the spec: the class \<^verbatim>\<open>NIfTI_MRS\<close> of \<^verbatim>\<open>spec2nii.nifti_mrs\<close> is not among
  the sources. It is the output unit of the specification: spectrum, orientation matrix,
  dwell time and header metadata, in the order of the constructor's arguments.
\<close>

datatype NIfTI_MRS = NIfTI_MRS (mrs_data: "complex ndarray") (mrs_affine: "real list list")
  (mrs_dwelltime: real) (mrs_meta: hdr_ext)

section \<open>Classification (lines 13 to 22)\<close>

datatype mrs_type = SVS | CSI

definition svs_or_CSI :: "dicom_img \<Rightarrow> error + mrs_type" where
  "svs_or_CSI img =
     bindE (csa_item img ''Rows'' 0) (\<lambda>rows.
     bindE (csa_item img ''Columns'' 0) (\<lambda>cols.
     bindE (csa_item img ''NumberOfFrames'' 0) (\<lambda>slices.
     bindE (mapE to_count [rows, cols, slices]) (\<lambda>ns.
       if np_prod ns > 1 then Inr CSI else Inr SVS))))"

section \<open>Metadata (lines 165 to 229)\<close>

text \<open>
  The conversion time is read from the clock in the source; here it is an argument. The
  commented-out lines of the source are left out.
\<close>

definition extractDicomMetadata :: "string \<Rightarrow> dicom_img \<Rightarrow> error + hdr_ext" where
  "extractDicomMetadata conversion_time dcmdata =
     bindE (csa_item dcmdata ''ImagingFrequency'' 0) (\<lambda>freq.
     bindE (csa_item dcmdata ''ImagedNucleus'' 0) (\<lambda>nucleus.
     let obj = hdr_ext_init freq nucleus in
     bindE (attr (Manufacturer (dcm dcmdata))) (\<lambda>v.
     let obj = set_standard_def ''Manufacturer'' (PStr v) obj in
     bindE (attr (ManufacturerModelName (dcm dcmdata))) (\<lambda>v.
     let obj = set_standard_def ''ManufacturersModelName'' (PStr v) obj in
     bindE (attr (DeviceSerialNumber (dcm dcmdata))) (\<lambda>v.
     let obj = set_standard_def ''DeviceSerialNumber'' (PStr v) obj in
     bindE (attr (SoftwareVersions (dcm dcmdata))) (\<lambda>v.
     let obj = set_standard_def ''SoftwareVersions'' (PStr v) obj in
     bindE (attr (InstitutionName (dcm dcmdata))) (\<lambda>v.
     let obj = set_standard_def ''InstitutionName'' (PStr v) obj in
     bindE (attr (InstitutionAddress (dcm dcmdata))) (\<lambda>v.
     let obj = set_standard_def ''InstitutionAddress'' (PStr v) obj in
     bindE (csa_items dcmdata ''ReceivingCoil'') (\<lambda>rc.
     bindE (if length rc > 0
            then bindE (getitem rc 0) (\<lambda>v.
                   Inr (set_user_def ''ReceiveCoilName'' v ''Rx coil name.'' obj))
            else bindE (csa_item dcmdata ''ImaCoilString'' 0) (\<lambda>v.
                   Inr (set_user_def ''ReceiveCoilName'' v ''Rx coil name.'' obj))) (\<lambda>obj.
     bindE (csa_item dcmdata ''SequenceName'' 0) (\<lambda>v.
     let obj = set_standard_def ''SequenceName'' v obj in
     bindE (attr (ProtocolName (dcm dcmdata))) (\<lambda>v.
     let obj = set_standard_def ''ProtocolName'' (PStr v) obj in
     bindE (csa_item dcmdata ''SequenceName'' 0) (\<lambda>v.
     let obj = set_user_def ''PulseSequenceFile'' v ''Sequence binary path.'' obj in
     bindE (attr (PatientPosition (dcm dcmdata))) (\<lambda>v.
     let obj = set_standard_def ''PatientPosition'' (PStr v) obj in
     bindE (attr (PatientName_family_name (dcm dcmdata))) (\<lambda>v.
     let obj = set_standard_def ''PatientName'' (PStr v) obj in
     bindE (attr (PatientWeight (dcm dcmdata))) (\<lambda>v.
     let obj = set_standard_def ''PatientWeight'' (PFloat v) obj in
     bindE (attr (PatientBirthDate (dcm dcmdata))) (\<lambda>v.
     let obj = set_standard_def ''PatientDoB'' (PStr v) obj in
     bindE (attr (PatientSex (dcm dcmdata))) (\<lambda>v.
     let obj = set_standard_def ''PatientSex'' (PStr v) obj in
     bindE (csa_item dcmdata ''EchoTime'' 0) (\<lambda>v.
     bindE (to_real v) (\<lambda>x.
     let obj = set_standard_def ''EchoTime'' (PFloat (x * (1 / 1000))) obj in
     bindE (csa_n_items dcmdata ''InversionTime'') (\<lambda>n.
     bindE (if n > 0
            then bindE (csa_item dcmdata ''InversionTime'' 0) (\<lambda>v.
                   Inr (set_standard_def ''InversionTime'' v obj))
            else Inr obj) (\<lambda>obj.
     bindE (csa_item dcmdata ''FlipAngle'' 0) (\<lambda>v.
     let obj = set_standard_def ''ExcitationFlipAngle'' v obj in
     bindE (csa_item dcmdata ''RepetitionTime'' 0) (\<lambda>v.
     bindE (to_real v) (\<lambda>x.
     let obj = set_standard_def ''RepetitionTime'' (PFloat (x / 1000)) obj in
     let obj = set_standard_def ''ConversionMethod'' (PStr ''spec2nii'') obj in
     let obj = set_standard_def ''ConversionTime'' (PStr conversion_time) obj in
     Inr obj)))))))))))))))))))))))))"

text \<open>
  The inputs that the metadata extraction reads apart from the two receive-coil tags: each
  tag has the item it needs (a number where the source multiplies or divides), each
  attribute is present. \<open>succeeds\<close> says that a step returns rather than raises.
\<close>

definition succeeds :: "error + 'a \<Rightarrow> bool" where
  "succeeds r = (case r of Inl e \<Rightarrow> False | Inr x \<Rightarrow> True)"

definition metadata_inputs_present :: "dicom_img \<Rightarrow> bool" where
  "metadata_inputs_present img =
     (succeeds (csa_item img ''ImagingFrequency'' 0)
      \<and> succeeds (csa_item img ''ImagedNucleus'' 0)
      \<and> succeeds (csa_item img ''SequenceName'' 0)
      \<and> succeeds (csa_item img ''FlipAngle'' 0)
      \<and> succeeds (bindE (csa_item img ''EchoTime'' 0) to_real)
      \<and> succeeds (bindE (csa_item img ''RepetitionTime'' 0) to_real)
      \<and> succeeds (bindE (csa_n_items img ''InversionTime'')
                    (\<lambda>n. if n > 0 then csa_item img ''InversionTime'' 0 else Inr (PInt 0)))
      \<and> Manufacturer (dcm img) \<noteq> None \<and> ManufacturerModelName (dcm img) \<noteq> None
      \<and> DeviceSerialNumber (dcm img) \<noteq> None \<and> SoftwareVersions (dcm img) \<noteq> None
      \<and> InstitutionName (dcm img) \<noteq> None \<and> InstitutionAddress (dcm img) \<noteq> None
      \<and> ProtocolName (dcm img) \<noteq> None \<and> PatientPosition (dcm img) \<noteq> None
      \<and> PatientName_family_name (dcm img) \<noteq> None \<and> PatientWeight (dcm img) \<noteq> None
      \<and> PatientBirthDate (dcm img) \<noteq> None \<and> PatientSex (dcm img) \<noteq> None)"

section \<open>Per-file extraction (lines 108 to 162)\<close>

text \<open>
  \<^verbatim>\<open>nifti_dicom2mat\<close> (\<^verbatim>\<open>spec2nii.dcm2niiOrientation.orientationFuncs\<close>) is not among the
  sources; the extraction functions take it as the argument \<open>dicom2mat\<close>: from the 2 by 3
  direction cosines, the position and the voxel size to a matrix given by its rows.
\<close>

type_synonym dicom2mat_fn = "real list list \<Rightarrow> real list \<Rightarrow> real list \<Rightarrow> error + real list list"

text \<open>\<^verbatim>\<open>dcm_data[('7fe1', '1010')].value\<close> read with \<^verbatim>\<open>np.frombuffer\<close>; an absent element is a KeyError.\<close>

definition frombuffer_7fe1_1010 :: "dicom_img \<Rightarrow> error + real list" where
  "frombuffer_7fe1_1010 img =
     (case elem_7fe1_1010 (dcm img) of None \<Rightarrow> Inl KeyError | Some b \<Rightarrow> Inr b)"

text \<open>\<^verbatim>\<open>np.array(items).reshape(2, 3)\<close>: six numbers as two rows of three.\<close>

definition reshape_2_3 :: "pyval list \<Rightarrow> error + real list list" where
  "reshape_2_3 its =
     bindE (mapE to_real its) (\<lambda>xs.
       if length xs = 6 then Inr [take 3 xs, drop 3 xs] else Inl ValueError)"

text \<open>\<^verbatim>\<open>Q44[:2, :] *= -1\<close>: the first two rows change sign.\<close>

definition negate_first_two_rows :: "real list list \<Rightarrow> real list list" where
  "negate_first_two_rows Q = map (map uminus) (take 2 Q) @ drop 2 Q"

text \<open>
  The block ``1) Extract dicom parameters'' of the single-voxel path (lines 115 to 119): the
  direction cosines as 2 by 3, the position from \<^verbatim>\<open>VoiPosition\<close>, and the voxel size from
  phase field of view, readout field of view and thickness. The position is passed on as
  the list of items; it is read as numbers here, at the end of the block, where the
  orientation calculation first uses it.
\<close>

definition svs_geometry :: "dicom_img \<Rightarrow> error + (real list list \<times> real list \<times> real list)" where
  "svs_geometry img =
     bindE (csa_items img ''ImageOrientationPatient'') (\<lambda>iop.
     bindE (reshape_2_3 iop) (\<lambda>imageOrientationPatient.
     bindE (csa_items img ''VoiPosition'') (\<lambda>ipp.
     bindE (csa_item img ''VoiPhaseFoV'' 0) (\<lambda>x0.
     bindE (csa_item img ''VoiReadoutFoV'' 0) (\<lambda>x1.
     bindE (csa_item img ''VoiThickness'' 0) (\<lambda>x2.
     bindE (mapE to_real [x0, x1, x2]) (\<lambda>xyzMM.
     bindE (mapE to_real ipp) (\<lambda>imagePositionPatient.
       Inr (imageOrientationPatient, imagePositionPatient, xyzMM)))))))))"

text \<open>
  The same block of the multi-voxel path (lines 147 to 151): the position from
  \<^verbatim>\<open>ImagePositionPatient\<close>, the voxel size from the two pixel spacings and the slice
  thickness.
\<close>

definition csi_geometry :: "dicom_img \<Rightarrow> error + (real list list \<times> real list \<times> real list)" where
  "csi_geometry img =
     bindE (csa_items img ''ImageOrientationPatient'') (\<lambda>iop.
     bindE (reshape_2_3 iop) (\<lambda>imageOrientationPatient.
     bindE (csa_items img ''ImagePositionPatient'') (\<lambda>ipp.
     bindE (mapE to_real ipp) (\<lambda>imagePositionPatient.
     bindE (csa_item img ''PixelSpacing'' 0) (\<lambda>x0.
     bindE (csa_item img ''PixelSpacing'' 1) (\<lambda>x1.
     bindE (csa_item img ''SliceThickness'' 0) (\<lambda>x2.
     bindE (mapE to_real [x0, x1, x2]) (\<lambda>xyzMM.
       Inr (imageOrientationPatient, imagePositionPatient, xyzMM)))))))))"

definition process_siemens_svs ::
  "dicom2mat_fn \<Rightarrow> string \<Rightarrow> dicom_img \<Rightarrow> error + (complex ndarray \<times> NIFTIOrient \<times> real \<times> hdr_ext)" where
  "process_siemens_svs dicom2mat now img =
     bindE (frombuffer_7fe1_1010 img) (\<lambda>specData.
     bindE (decode_complex specData) (\<lambda>specDataCmplx.
     bindE (svs_geometry img) (\<lambda>(imageOrientationPatient, imagePositionPatient, xyzMM).
     bindE (dicom2mat imageOrientationPatient imagePositionPatient xyzMM) (\<lambda>Q.
     let currNiftiOrientation = NIFTIOrient (negate_first_two_rows Q) in
     bindE (csa_item img ''RealDwellTime'' 0) (\<lambda>rdt.
     bindE (to_real rdt) (\<lambda>t.
     let dwelltime = t * (1 / 10 ^ 9) in
     bindE (extractDicomMetadata now img) (\<lambda>meta.
       Inr (specDataCmplx, currNiftiOrientation, dwelltime, meta))))))))"

definition process_siemens_csi ::
  "dicom2mat_fn \<Rightarrow> string \<Rightarrow> dicom_img \<Rightarrow> error + (complex ndarray \<times> NIFTIOrient \<times> real \<times> hdr_ext)" where
  "process_siemens_csi dicom2mat now img =
     bindE (frombuffer_7fe1_1010 img) (\<lambda>specData.
     bindE (decode_complex specData) (\<lambda>specDataCmplx.
     bindE (bindE (csa_item img ''Rows'' 0) to_count) (\<lambda>rows.
     bindE (bindE (csa_item img ''Columns'' 0) to_count) (\<lambda>cols.
     bindE (bindE (csa_item img ''NumberOfFrames'' 0) to_count) (\<lambda>slices.
     bindE (bindE (csa_item img ''DataPointColumns'' 0) to_count) (\<lambda>spectral_points.
     bindE (np_reshape specDataCmplx [slices, rows, cols, spectral_points]) (\<lambda>specDataCmplx.
     bindE (np_moveaxis_012_210 specDataCmplx) (\<lambda>specDataCmplx.
     bindE (csi_geometry img) (\<lambda>(imageOrientationPatient, imagePositionPatient, xyzMM).
     bindE (dicom2mat imageOrientationPatient imagePositionPatient xyzMM) (\<lambda>Q.
     let currNiftiOrientation = NIFTIOrient (negate_first_two_rows Q) in
     bindE (csa_item img ''RealDwellTime'' 0) (\<lambda>rdt.
     bindE (to_real rdt) (\<lambda>t.
     let dwelltime = t * (1 / 10 ^ 9) in
     bindE (extractDicomMetadata now img) (\<lambda>meta.
       Inr (specDataCmplx, currNiftiOrientation, dwelltime, meta))))))))))))))"

section \<open>The batch (lines 25 to 105)\<close>

text \<open>Truth value of an optional string argument: \<^verbatim>\<open>None\<close> and the empty string are false.\<close>

fun truthy :: "string option \<Rightarrow> bool" where
  "truthy None = False"
| "truthy (Some s) = (s \<noteq> [])"

text \<open>The format \<^verbatim>\<open>{idx:03}\<close>: decimal digits, padded with zeros on the left to width three.\<close>

definition digit_char :: "nat \<Rightarrow> char" where
  "digit_char d = ''0123456789'' ! d"

function str_nat :: "nat \<Rightarrow> string" where
  "str_nat n = (if n < 10 then [digit_char n] else str_nat (n div 10) @ [digit_char (n mod 10)])"
  by pat_completeness auto
termination
  by (relation "measure id") auto

declare str_nat.simps [simp del]

definition format_03 :: "nat \<Rightarrow> string" where
  "format_03 idx = replicate (3 - length (str_nat idx)) (CHR ''0'') @ str_nat idx"

text \<open>
  Lines 38 to 49, the body of the loop for one decoded file: classify and extract; the
  single-voxel spectrum gets three leading axes of length one (lines 45 and 46). The
  clock reading \<open>now\<close> is an argument.
\<close>

definition convert_file ::
  "dicom2mat_fn \<Rightarrow> string \<Rightarrow> dicom_img \<Rightarrow> error + (complex ndarray \<times> NIFTIOrient \<times> real \<times> hdr_ext)" where
  "convert_file dicom2mat now img =
     bindE (svs_or_CSI img) (\<lambda>mrs_type.
       if mrs_type = SVS
       then bindE (process_siemens_svs dicom2mat now img) (\<lambda>(specDataCmplx, orientation, dwelltime, meta_obj).
              bindE (np_reshape specDataCmplx ([1, 1, 1] @ shape specDataCmplx)) (\<lambda>specDataCmplx.
                Inr (specDataCmplx, orientation, dwelltime, meta_obj)))
       else process_siemens_csi dicom2mat now img)"

text \<open>
  Lines 56 to 60: the stem of the output names is fixed at the first file, from the
  override when it is true as a condition, otherwise from the first file's
  \<^verbatim>\<open>SeriesDescription\<close>.
\<close>

definition main_str :: "string option \<Rightarrow> dicom_img \<Rightarrow> error + string" where
  "main_str fname_out img =
     (if truthy fname_out then Inr (the fname_out) else attr (SeriesDescription (dcm img)))"

type_synonym file_lists =
  "complex ndarray list \<times> NIFTIOrient list \<times> real list \<times> hdr_ext list \<times> string"

text \<open>
  The loop of lines 34 to 60 over the files from index \<open>idx\<close> on; the four lists and
  \<^verbatim>\<open>mainStr\<close> are carried along. The first exception ends the loop. The decoder
  \<open>wrapper_from_file\<close> and the clock are arguments. Printing under \<^verbatim>\<open>verbose\<close> has no
  effect on the result.
\<close>

fun convert_loop ::
  "(string \<Rightarrow> error + dicom_img) \<Rightarrow> dicom2mat_fn \<Rightarrow> (nat \<Rightarrow> string) \<Rightarrow> string option \<Rightarrow>
   nat \<Rightarrow> string list \<Rightarrow> file_lists \<Rightarrow> error + file_lists" where
  "convert_loop wrapper_from_file dicom2mat clock fname_out idx [] acc = Inr acc"
| "convert_loop wrapper_from_file dicom2mat clock fname_out idx (fn # fns)
       (data_list, orientation_list, dwelltime_list, meta_list, mainStr) =
     bindE (wrapper_from_file fn) (\<lambda>img.
     bindE (convert_file dicom2mat (clock idx) img) (\<lambda>(specDataCmplx, orientation, dwelltime, meta_obj).
     bindE (if idx = 0 then main_str fname_out img else Inr mainStr) (\<lambda>mainStr.
       convert_loop wrapper_from_file dicom2mat clock fname_out (Suc idx) fns
         (data_list @ [specDataCmplx], orientation_list @ [orientation],
          dwelltime_list @ [dwelltime], meta_list @ [meta_obj], mainStr))))"

text \<open>\<^verbatim>\<open>all_equal\<close> (lines 65 and 66): \<^verbatim>\<open>lst[:-1] == lst[1:]\<close>.\<close>

definition all_equal :: "'a list \<Rightarrow> bool" where
  "all_equal lst = (butlast lst = tl lst)"

definition combine_test :: "complex ndarray list \<Rightarrow> NIFTIOrient list \<Rightarrow> real list \<Rightarrow> bool" where
  "combine_test data_list orientation_list dwelltime_list =
     (all_equal (map shape data_list)
      \<and> all_equal (map Q44 orientation_list)
      \<and> all_equal dwelltime_list)"

definition multi_file_dicom ::
  "(string \<Rightarrow> error + dicom_img) \<Rightarrow> dicom2mat_fn \<Rightarrow> (nat \<Rightarrow> string) \<Rightarrow>
   string list \<Rightarrow> string option \<Rightarrow> string option \<Rightarrow> bool \<Rightarrow> error + (NIfTI_MRS list \<times> string list)" where
  "multi_file_dicom wrapper_from_file dicom2mat clock files_in fname_out tag verbose =
     bindE (convert_loop wrapper_from_file dicom2mat clock fname_out 0 files_in ([], [], [], [], []))
       (\<lambda>(data_list, orientation_list, dwelltime_list, meta_list, mainStr).
       if combine_test data_list orientation_list dwelltime_list
       then
         bindE (getitem dwelltime_list 0) (\<lambda>dt_used.
         bindE (getitem orientation_list 0) (\<lambda>or_used.
         bindE (getitem meta_list 0) (\<lambda>meta_used.
         let meta_used = set_standard_def ''OriginalFile'' (PList files_in) meta_used in
         bindE (np_stack_last data_list) (\<lambda>combined_data.
         let meta_used = (if truthy tag then set_dim_info 0 (the tag) meta_used else meta_used) in
           Inr ([NIfTI_MRS combined_data (Q44 or_used) dt_used meta_used], [mainStr])))))
       else
         Inr (map (\<lambda>(idx, dd, oo, dt, mm, ff).
                     NIfTI_MRS dd (Q44 oo) dt (set_standard_def ''OriginalFile'' (PList [ff]) mm))
                  (zip [0..<length files_in]
                    (zip data_list (zip orientation_list (zip dwelltime_list (zip meta_list files_in))))),
              map (\<lambda>(idx, dd, oo, dt, mm, ff). mainStr @ ''_'' @ format_03 idx)
                  (zip [0..<length files_in]
                    (zip data_list (zip orientation_list (zip dwelltime_list (zip meta_list files_in)))))))"

section \<open>The orientation calculation\<close>

text \<open>
  Modelled from the spec: the function \<^verbatim>\<open>nifti_dicom2mat\<close> of
  \<^verbatim>\<open>spec2nii.dcm2niiOrientation.orientationFuncs\<close> is not among the sources. Section 4.2 of
  the specification: the third direction vector is the cross product of the row and column
  direction vectors; the three vectors are the columns of the direction-cosine matrix; each
  column is scaled by its voxel-size component; the translation column is the position; the
  bottom row is \<open>[0, 0, 0, 1]\<close>. The calculation fails with GeometryError if a voxel-size
  component is not positive or if the cross product is near zero. The specification gives no
  threshold for ``near zero'': it is the argument \<open>tol\<close>, compared with the squared length
  of the cross product. Inputs that are not a 2 by 3 matrix and two 3-vectors are a
  ValueError.
\<close>

definition cross3 :: "real list \<Rightarrow> real list \<Rightarrow> real list" where
  "cross3 a b = [a ! 1 * b ! 2 - a ! 2 * b ! 1, a ! 2 * b ! 0 - a ! 0 * b ! 2, a ! 0 * b ! 1 - a ! 1 * b ! 0]"

definition near_zero :: "real \<Rightarrow> real list \<Rightarrow> bool" where
  "near_zero tol v = (sum_list (map (\<lambda>x. x * x) v) \<le> tol)"

definition nifti_dicom2mat :: "real \<Rightarrow> dicom2mat_fn" where
  "nifti_dicom2mat tol orient pos xyzMM =
     (if map length orient \<noteq> [3, 3] \<or> length pos \<noteq> 3 \<or> length xyzMM \<noteq> 3 then Inl ValueError
      else if \<exists>x \<in> set xyzMM. x \<le> 0 then Inl GeometryError
      else
        let r = orient ! 0; c = orient ! 1; n = cross3 r c in
        if near_zero tol n then Inl GeometryError
        else Inr [[r ! 0 * xyzMM ! 0, c ! 0 * xyzMM ! 1, n ! 0 * xyzMM ! 2, pos ! 0],
                  [r ! 1 * xyzMM ! 0, c ! 1 * xyzMM ! 1, n ! 1 * xyzMM ! 2, pos ! 1],
                  [r ! 2 * xyzMM ! 0, c ! 2 * xyzMM ! 1, n ! 2 * xyzMM ! 2, pos ! 2],
                  [0, 0, 0, 1]])"

text \<open>
  Modelled from the spec: the invariant of an OrientationMatrix (section 3): four rows of
  four, the bottom row exactly \<open>[0, 0, 0, 1]\<close>, and a non-zero determinant of the upper
  left 3 by 3 block.
\<close>

definition det3 :: "real list list \<Rightarrow> real" where
  "det3 Q = Q ! 0 ! 0 * (Q ! 1 ! 1 * Q ! 2 ! 2 - Q ! 1 ! 2 * Q ! 2 ! 1)
          - Q ! 0 ! 1 * (Q ! 1 ! 0 * Q ! 2 ! 2 - Q ! 1 ! 2 * Q ! 2 ! 0)
          + Q ! 0 ! 2 * (Q ! 1 ! 0 * Q ! 2 ! 1 - Q ! 1 ! 1 * Q ! 2 ! 0)"

definition valid_orientation :: "real list list \<Rightarrow> bool" where
  "valid_orientation Q = (map length Q = [4, 4, 4, 4] \<and> Q ! 3 = [0, 0, 0, 1] \<and> det3 Q \<noteq> 0)"

section \<open>Example inputs\<close>

text \<open>
  Concrete decoded files on which the theorems below are instantiated: a tag dictionary with
  every tag the module reads, the flat attributes, and a raw buffer. The arguments are the
  geometry counts, the dwell time in nanoseconds, the items of the primary receive-coil
  tag, the series description and the buffer.
\<close>

definition tag_of :: "pyval list \<Rightarrow> csa_tag" where
  "tag_of its = \<lparr>n_items = length its, items = its\<rparr>"

definition example_tags :: "nat \<Rightarrow> nat \<Rightarrow> nat \<Rightarrow> nat \<Rightarrow> nat \<Rightarrow> pyval list \<Rightarrow> string \<rightharpoonup> csa_tag" where
  "example_tags rows cols frames pts dwell_ns coil = map_of
     [(''Rows'', tag_of [PInt rows]),
      (''Columns'', tag_of [PInt cols]),
      (''NumberOfFrames'', tag_of [PInt frames]),
      (''DataPointColumns'', tag_of [PInt pts]),
      (''RealDwellTime'', tag_of [PInt dwell_ns]),
      (''ImageOrientationPatient'', tag_of [PFloat 1, PFloat 0, PFloat 0, PFloat 0, PFloat 1, PFloat 0]),
      (''VoiPosition'', tag_of [PFloat 1, PFloat 2, PFloat 3]),
      (''VoiPhaseFoV'', tag_of [PFloat 20]),
      (''VoiReadoutFoV'', tag_of [PFloat 20]),
      (''VoiThickness'', tag_of [PFloat 20]),
      (''ImagePositionPatient'', tag_of [PFloat 1, PFloat 2, PFloat 3]),
      (''PixelSpacing'', tag_of [PFloat 10, PFloat 10]),
      (''SliceThickness'', tag_of [PFloat 15]),
      (''ImagingFrequency'', tag_of [PFloat 123]),
      (''ImagedNucleus'', tag_of [PStr ''1H'']),
      (''ReceivingCoil'', tag_of coil),
      (''ImaCoilString'', tag_of [PStr ''HEA;HEP'']),
      (''SequenceName'', tag_of [PStr ''svs_se'']),
      (''EchoTime'', tag_of [PFloat 30]),
      (''InversionTime'', tag_of []),
      (''FlipAngle'', tag_of [PFloat 90]),
      (''RepetitionTime'', tag_of [PFloat 2000])]"

definition example_dcm :: "string \<Rightarrow> real list \<Rightarrow> dcm_data" where
  "example_dcm series buf =
     \<lparr>Manufacturer = Some ''SIEMENS'', ManufacturerModelName = Some ''Prisma'',
      DeviceSerialNumber = Some ''66000'', SoftwareVersions = Some ''syngo MR E11'',
      InstitutionName = Some ''FMRIB'', InstitutionAddress = Some ''Oxford'',
      ProtocolName = Some ''svs_protocol'', SeriesDescription = Some series,
      PatientPosition = Some ''HFS'', PatientName_family_name = Some ''phantom'',
      PatientWeight = Some 70, PatientBirthDate = Some ''19700101'', PatientSex = Some ''O'',
      elem_7fe1_1010 = Some buf\<rparr>"

definition example_img ::
  "nat \<Rightarrow> nat \<Rightarrow> nat \<Rightarrow> nat \<Rightarrow> nat \<Rightarrow> pyval list \<Rightarrow> string \<Rightarrow> real list \<Rightarrow> dicom_img" where
  "example_img rows cols frames pts dwell_ns coil series buf =
     \<lparr>csa_tags = example_tags rows cols frames pts dwell_ns coil, dcm = example_dcm series buf\<rparr>"

text \<open>The first example file with its voxel thickness set to zero.\<close>

definition example_img_flat :: dicom_img where
  "example_img_flat =
     \<lparr>csa_tags = (example_tags 1 1 1 2 500000 [])(''VoiThickness'' \<mapsto> tag_of [PFloat 0]),
      dcm = example_dcm ''svs_press'' [1, 2, 3, 4]\<rparr>"

text \<open>An orientation calculation for the examples: a fixed matrix, whatever the geometry.\<close>

definition example_dicom2mat :: dicom2mat_fn where
  "example_dicom2mat orient pos xyz = Inr [[1, 0, 0, 1], [0, 1, 0, 2], [0, 0, 1, 3], [0, 0, 0, 1]]"

text \<open>
  The header extension that the example files yield, written out field by field; \<open>coil\<close>
  is the receive-coil value.
\<close>

definition example_meta :: "string \<Rightarrow> pyval \<Rightarrow> hdr_ext" where
  "example_meta now coil =
     (set_standard_def ''ConversionTime'' (PStr now)
     (set_standard_def ''ConversionMethod'' (PStr ''spec2nii'')
     (set_standard_def ''RepetitionTime'' (PFloat 2)
     (set_standard_def ''ExcitationFlipAngle'' (PFloat 90)
     (set_standard_def ''EchoTime'' (PFloat (3 / 100))
     (set_standard_def ''PatientSex'' (PStr ''O'')
     (set_standard_def ''PatientDoB'' (PStr ''19700101'')
     (set_standard_def ''PatientWeight'' (PFloat 70)
     (set_standard_def ''PatientName'' (PStr ''phantom'')
     (set_standard_def ''PatientPosition'' (PStr ''HFS'')
     (set_user_def ''PulseSequenceFile'' (PStr ''svs_se'') ''Sequence binary path.''
     (set_standard_def ''ProtocolName'' (PStr ''svs_protocol'')
     (set_standard_def ''SequenceName'' (PStr ''svs_se'')
     (set_user_def ''ReceiveCoilName'' coil ''Rx coil name.''
     (set_standard_def ''InstitutionAddress'' (PStr ''Oxford'')
     (set_standard_def ''InstitutionName'' (PStr ''FMRIB'')
     (set_standard_def ''SoftwareVersions'' (PStr ''syngo MR E11'')
     (set_standard_def ''DeviceSerialNumber'' (PStr ''66000'')
     (set_standard_def ''ManufacturersModelName'' (PStr ''Prisma'')
     (set_standard_def ''Manufacturer'' (PStr ''SIEMENS'')
     (hdr_ext_init (PFloat 123) (PStr ''1H''))))))))))))))))))))))"

definition example_Q44 :: "real list list" where
  "example_Q44 = [[- 1, 0, 0, - 1], [0, - 1, 0, - 2], [0, 0, 1, 3], [0, 0, 0, 1]]"

text \<open>
  A decoder for the examples. Files a, b and c are single-voxel files of one series, c with
  a longer dwell time; d is of another series under the same protocol name; the others
  carry buffers of odd or mismatched length, or a 2 by 3 grid of voxels.
\<close>

definition example_decoder :: "string \<Rightarrow> error + dicom_img" where
  "example_decoder fn =
     (if fn = ''a.dcm'' then Inr (example_img 1 1 1 2 500000 [] ''svs_press'' [1, 2, 3, 4])
      else if fn = ''b.dcm'' then Inr (example_img 1 1 1 2 500000 [] ''svs_press'' [5, 6, 7, 8])
      else if fn = ''c.dcm'' then Inr (example_img 1 1 1 2 600000 [] ''svs_press'' [9, 10, 11, 12])
      else if fn = ''d.dcm'' then Inr (example_img 1 1 1 2 500000 [] ''other_series'' [1, 2, 3, 4])
      else if fn = ''odd3.dcm'' then Inr (example_img 1 1 1 2 500000 [] ''svs_press'' [1, 2, 3])
      else if fn = ''odd5.dcm'' then Inr (example_img 1 1 1 2 500000 [] ''svs_press'' [1, 2, 3, 4, 5])
      else if fn = ''csi.dcm''
        then Inr (example_img 2 3 1 1 500000 [] ''csi_fid'' [1, 2, 3, 4, 5, 6, 7, 8, 9, 10, 11, 12])
      else if fn = ''csi_odd3.dcm'' then Inr (example_img 2 1 1 1 500000 [] ''csi_fid'' [1, 2, 3])
      else if fn = ''csi_short.dcm'' then Inr (example_img 2 3 1 1 500000 [] ''csi_fid'' [1, 2, 3, 4])
      else Inl DecodeError)"

definition example_clock :: "nat \<Rightarrow> string" where
  "example_clock idx = ''2020-01-01T00:00:00.00'' @ [digit_char idx]"

section \<open>Basic facts\<close>

lemma bindE_Inr [simp]: "bindE (Inr x) f = f x"
  by (simp add: bindE_def)

lemma bindE_Inl [simp]: "bindE (Inl e) f = Inl e"
  by (simp add: bindE_def)

lemma bindE_eq_Inr: "bindE m f = Inr y \<longleftrightarrow> (\<exists>x. m = Inr x \<and> f x = Inr y)"
  by (cases m) simp_all

lemma example_csa_item_simps:
  "csa_item (example_img r c f p d coil s buf) ''Rows'' 0 = Inr (PInt r)"
  "csa_item (example_img r c f p d coil s buf) ''Columns'' 0 = Inr (PInt c)"
  "csa_item (example_img r c f p d coil s buf) ''NumberOfFrames'' 0 = Inr (PInt f)"
  "csa_item (example_img r c f p d coil s buf) ''DataPointColumns'' 0 = Inr (PInt p)"
  by (simp_all add: csa_item_def csa_items_def example_img_def example_tags_def tag_of_def getitem_def)

section \<open>The combinability test\<close>

lemma all_equal_Cons: "all_equal (x # xs) = (xs = [] \<or> (x = hd xs \<and> all_equal xs))"
  by (cases xs) (auto simp: all_equal_def)

lemma all_equal_set: "all_equal xs = (\<forall>a \<in> set xs. \<forall>b \<in> set xs. a = b)"
proof (induction xs)
  case Nil
  show ?case by (simp add: all_equal_def)
next
  case (Cons x xs)
  show ?case
  proof (cases xs)
    case Nil
    then show ?thesis by (simp add: all_equal_def)
  next
    case (Cons y ys)
    with Cons.IH show ?thesis
      by (auto simp: all_equal_Cons)
  qed
qed

lemma all_equal_nth: "all_equal xs = (\<forall>i < length xs. \<forall>j < length xs. xs ! i = xs ! j)"
  unfolding all_equal_set by (metis in_set_conv_nth)

text \<open>
  Claim C1. The batch is judged combinable exactly when all spectra have one and the same
  shape, all orientation matrices are equal and all dwell times are equal. Equality is
  that of the values themselves: two matrices are equal when they have the same entries,
  two dwell times when they are the same number; nothing is compared up to a tolerance.
\<close>

theorem combine_test_iff_all_equal:
  "combine_test data_list orientation_list dwelltime_list \<longleftrightarrow>
     (\<forall>i < length data_list. \<forall>j < length data_list. shape (data_list ! i) = shape (data_list ! j))
   \<and> (\<forall>i < length orientation_list. \<forall>j < length orientation_list.
         Q44 (orientation_list ! i) = Q44 (orientation_list ! j))
   \<and> (\<forall>i < length dwelltime_list. \<forall>j < length dwelltime_list.
         dwelltime_list ! i = dwelltime_list ! j)"
  by (simp add: combine_test_def all_equal_nth)

theorem combine_test_iff_all_equal_witness:
  "combine_test [\<lparr>shape = [1, 1, 1, 2], flat = [1, 2]\<rparr>, \<lparr>shape = [1, 1, 1, 2], flat = [3, 4]\<rparr>]
     [NIFTIOrient [[1, 0], [0, 1]], NIFTIOrient [[1, 0], [0, 1]]] [5 / 10000, 5 / 10000]
   \<and> \<not> combine_test [\<lparr>shape = [1, 1, 1, 2], flat = [1, 2]\<rparr>, \<lparr>shape = [1, 1, 1, 2], flat = [3, 4]\<rparr>]
     [NIFTIOrient [[1, 0], [0, 1]], NIFTIOrient [[1, 0], [0, 1]]] [5 / 10000, 6 / 10000]"
proof
  show "combine_test [\<lparr>shape = [1, 1, 1, 2], flat = [1, 2]\<rparr>, \<lparr>shape = [1, 1, 1, 2], flat = [3, 4]\<rparr>]
     [NIFTIOrient [[1, 0], [0, 1]], NIFTIOrient [[1, 0], [0, 1]]] [5 / 10000, 5 / 10000]"
    by (rule iffD2 [OF combine_test_iff_all_equal]) (simp add: less_Suc_eq)
next
  show "\<not> combine_test [\<lparr>shape = [1, 1, 1, 2], flat = [1, 2]\<rparr>, \<lparr>shape = [1, 1, 1, 2], flat = [3, 4]\<rparr>]
     [NIFTIOrient [[1, 0], [0, 1]], NIFTIOrient [[1, 0], [0, 1]]] [5 / 10000, 6 / 10000]"
  proof
    assume "combine_test [\<lparr>shape = [1, 1, 1, 2], flat = [1, 2]\<rparr>, \<lparr>shape = [1, 1, 1, 2], flat = [3, 4]\<rparr>]
     [NIFTIOrient [[1, 0], [0, 1]], NIFTIOrient [[1, 0], [0, 1]]] [5 / 10000, 6 / 10000]"
    then have "\<forall>i < length [5 / 10000, 6 / 10000 :: real]. \<forall>j < length [5 / 10000, 6 / 10000 :: real].
        [5 / 10000, 6 / 10000 :: real] ! i = [5 / 10000, 6 / 10000] ! j"
      unfolding combine_test_iff_all_equal by (elim conjE)
    then show False by (auto simp: less_Suc_eq)
  qed
qed

section \<open>Classification\<close>

lemma sint_small: "n < 2 ^ 63 \<Longrightarrow> sint (word_of_nat n :: 64 word) = int n"
  by (simp add: signed_of_nat signed_take_bit_int_eq_self)

lemma np_prod_3: "np_prod [a, b, c] = sint (word_of_nat (a * b * c) :: 64 word)"
  by (simp add: np_prod_def)

lemma prod3_gt_1:
  "1 \<le> a \<Longrightarrow> 1 \<le> b \<Longrightarrow> 1 \<le> c \<Longrightarrow> (1 < a * b * c) = (\<not> (a = 1 \<and> b = 1 \<and> c = (1::nat)))"
  by (metis One_nat_def Suc_le_eq less_one mult.right_neutral nat_1_eq_mult_iff nat_neq_iff mult_is_0)

text \<open>
  Claim C6, as amended. For rows, columns and frames all at least 1 whose product is below
  \<open>2 ^ 63\<close>, the classifier answers CSI (multi-voxel) exactly when the product exceeds 1,
  and SVS (single-voxel) exactly when all three are 1. The bound is there because
  \<^verbatim>\<open>np.prod\<close> multiplies in 64-bit integers.
\<close>

theorem svs_or_CSI_rule:
  assumes "csa_item img ''Rows'' 0 = Inr (PInt rows)"
      and "csa_item img ''Columns'' 0 = Inr (PInt cols)"
      and "csa_item img ''NumberOfFrames'' 0 = Inr (PInt frames)"
      and "1 \<le> rows" and "1 \<le> cols" and "1 \<le> frames"
      and "rows * cols * frames < 2 ^ 63"
  shows "svs_or_CSI img = Inr (if rows * cols * frames > 1 then CSI else SVS)
       \<and> (svs_or_CSI img = Inr SVS \<longleftrightarrow> rows = 1 \<and> cols = 1 \<and> frames = 1)"
proof -
  have p: "np_prod [rows, cols, frames] = int (rows * cols * frames)"
    using assms(7) by (simp only: np_prod_3 sint_small)
  have q: "(1 < np_prod [rows, cols, frames]) = (1 < rows * cols * frames)"
    unfolding p by linarith
  have c: "svs_or_CSI img = Inr (if rows * cols * frames > 1 then CSI else SVS)"
    using assms(1-3) by (simp add: svs_or_CSI_def q del: One_nat_def)
  moreover have "(1 < rows * cols * frames) = (\<not> (rows = 1 \<and> cols = 1 \<and> frames = 1))"
    using assms(4-6) by (rule prod3_gt_1)
  ultimately show ?thesis by auto
qed

theorem svs_or_CSI_rule_witness:
  "svs_or_CSI (example_img 1 1 1 4 500000 [] ''svs'' [1, 2, 3, 4]) = Inr SVS
   \<and> svs_or_CSI (example_img 2 3 1 4 500000 [] ''csi'' []) = Inr CSI"
  using svs_or_CSI_rule [of "example_img 1 1 1 4 500000 [] ''svs'' [1, 2, 3, 4]" 1 1 1]
        svs_or_CSI_rule [of "example_img 2 3 1 4 500000 [] ''csi'' []" 2 3 1]
  by (simp add: example_csa_item_simps)

text \<open>
  The claim as stated fails where the product leaves the 64-bit range: with
  \<open>2 ^ 32\<close> rows and \<open>2 ^ 32\<close> columns in one frame the product wraps to 0 and the
  classifier answers SVS.
\<close>

theorem svs_or_CSI_overflow_counterexample:
  "(1::nat) \<le> 4294967296 \<and> (1::nat) \<le> 1 \<and> (1::nat) < 4294967296 * 4294967296 * 1
   \<and> svs_or_CSI (example_img 4294967296 4294967296 1 4 500000 [] ''big'' []) = Inr SVS"
  by (simp add: svs_or_CSI_def example_csa_item_simps np_prod_def)

section \<open>Decoding the interleaved buffer\<close>

lemma length_slice_0_2: "length (slice_0_2 xs) = (length xs + 1) div 2"
  by (induction xs rule: slice_0_2.induct) simp_all

lemma length_slice_1_2: "length (slice_1_2 xs) = length xs div 2"
  by (induction xs rule: slice_1_2.induct) simp_all

lemma nth_slice_0_2: "2 * k < length xs \<Longrightarrow> slice_0_2 xs ! k = xs ! (2 * k)"
proof (induction xs arbitrary: k rule: slice_0_2.induct)
  case (3 x y xs)
  then show ?case by (cases k) simp_all
qed simp_all

lemma nth_slice_1_2: "2 * k + 1 < length xs \<Longrightarrow> slice_1_2 xs ! k = xs ! (2 * k + 1)"
proof (induction xs arbitrary: k rule: slice_1_2.induct)
  case (3 x y xs)
  then show ?case by (cases k) simp_all
qed simp_all

lemma decode_complex_even:
  assumes "length buf = 2 * N"
  shows "decode_complex buf =
           Inr \<lparr>shape = [N],
                flat = map (\<lambda>k. complex_of_real (buf ! (2 * k)) - \<i> * complex_of_real (buf ! (2 * k + 1))) [0..<N]\<rparr>"
proof -
  have l0: "length (slice_0_2 buf) = N" and l1: "length (slice_1_2 buf) = N"
    using assms by (simp_all add: length_slice_0_2 length_slice_1_2)
  have "map2 (-) (map complex_of_real (slice_0_2 buf)) (map (\<lambda>x. \<i> * complex_of_real x) (slice_1_2 buf))
        = map (\<lambda>k. complex_of_real (buf ! (2 * k)) - \<i> * complex_of_real (buf ! (2 * k + 1))) [0..<N]"
    using assms l0 l1 by (intro nth_equalityI) (simp_all add: nth_slice_0_2 nth_slice_1_2)
  then show ?thesis
    using l0 l1 by (simp add: decode_complex_def np_sub_1d_def)
qed

lemma decode_complex_odd:
  assumes "odd (length buf)" and "5 \<le> length buf"
  shows "decode_complex buf = Inl ValueError"
proof -
  obtain m where m: "length buf = 2 * m + 1"
    using assms(1) by (auto elim: oddE)
  then have "2 \<le> m" using assms(2) by simp
  then show ?thesis
    using m by (simp add: decode_complex_def np_sub_1d_def length_slice_0_2 length_slice_1_2)
qed


lemma length_concat_map_upt:
  "(\<And>i. i < n \<Longrightarrow> length (f i) = m) \<Longrightarrow> length (concat (map f [0..<n])) = n * m"
  by (induction n) simp_all

lemma index_bound: "i < n \<Longrightarrow> j < m \<Longrightarrow> i * m + j < n * (m::nat)"
proof -
  assume a: "i < n" "j < m"
  then have "i * m + j < i * m + m" by simp
  also have "\<dots> = Suc i * m" by simp
  also have "\<dots> \<le> n * m" using a(1) by (intro mult_le_mono1) simp
  finally show ?thesis .
qed

lemma nth_concat_map_upt:
  assumes "\<And>i. i < n \<Longrightarrow> length (f i) = m" and "i < n" and "j < m"
  shows "concat (map f [0..<n]) ! (i * m + j) = f i ! j"
  using assms
proof (induction n)
  case 0
  then show ?case by simp
next
  case (Suc n)
  have len: "length (concat (map f [0..<n])) = n * m"
    using Suc.prems(1) by (simp add: length_concat_map_upt)
  show ?case
  proof (cases "i < n")
    case True
    then have "i * m + j < n * m"
      using Suc.prems(3) by (rule index_bound)
    with True Suc show ?thesis by (simp add: nth_append len)
  next
    case False
    with Suc.prems(2) have "i = n" by simp
    then show ?thesis by (simp add: nth_append len)
  qed
qed

lemma moveaxis_shape:
  "shape a = [n0, n1, n2, n3] \<Longrightarrow> \<exists>b. np_moveaxis_012_210 a = Inr b \<and> shape b = [n2, n1, n0, n3]
     \<and> length (flat b) = n2 * (n1 * (n0 * n3))"
  by (simp add: np_moveaxis_012_210_def length_concat_map_upt)



lemma convert_file_SVS_data:
  assumes "svs_or_CSI img = Inr SVS"
      and "convert_file dicom2mat now img = Inr (d, ori, dt, m)"
      and "elem_7fe1_1010 (dcm img) = Some buf"
  shows "\<exists>c. decode_complex buf = Inr c \<and> np_reshape c ([1, 1, 1] @ shape c) = Inr d"
  using assms
  by (auto simp: convert_file_def process_siemens_svs_def frombuffer_7fe1_1010_def bindE_eq_Inr Let_def)


text \<open>
  Claim C4. A buffer of even length \<open>2 * N\<close> decodes without error; with the three
  leading axes added on the single-voxel path the spectrum has shape \<open>(1, 1, 1, N)\<close>,
  and its sample \<open>k\<close> is \<open>r\<^sub>k - \<i> * i\<^sub>k\<close> for the buffer elements \<open>r\<^sub>k\<close> at
  position \<open>2 * k\<close> and \<open>i\<^sub>k\<close> at position \<open>2 * k + 1\<close>. Whenever the conversion of a
  single-voxel file with that buffer returns, this array is the spectrum it returns.
\<close>

theorem svs_extraction_samples:
  assumes "length buf = 2 * N"
  shows "\<exists>c d. decode_complex buf = Inr c \<and> np_reshape c ([1, 1, 1] @ shape c) = Inr d
           \<and> shape d = [1, 1, 1, N]
           \<and> (\<forall>k < N. nd_at d [0, 0, 0, k]
                  = complex_of_real (buf ! (2 * k)) - \<i> * complex_of_real (buf ! (2 * k + 1)))
           \<and> (\<forall>dicom2mat now img d' ori dt m.
                  elem_7fe1_1010 (dcm img) = Some buf \<longrightarrow> svs_or_CSI img = Inr SVS \<longrightarrow>
                  convert_file dicom2mat now img = Inr (d', ori, dt, m) \<longrightarrow> d' = d)"
proof -
  let ?s = "\<lambda>k. complex_of_real (buf ! (2 * k)) - \<i> * complex_of_real (buf ! (2 * k + 1))"
  let ?c = "\<lparr>shape = [N], flat = map ?s [0..<N]\<rparr>"
  let ?d = "\<lparr>shape = [1, 1, 1, N], flat = map ?s [0..<N]\<rparr>"
  have c: "decode_complex buf = Inr ?c"
    using assms by (rule decode_complex_even)
  have d: "np_reshape ?c ([1, 1, 1] @ shape ?c) = Inr ?d"
    by (simp add: np_reshape_def)
  have at: "\<forall>k < N. nd_at ?d [0, 0, 0, k] = ?s k"
    by (simp add: nd_at_def)
  have link: "\<forall>dicom2mat now img d' ori dt m.
                  elem_7fe1_1010 (dcm img) = Some buf \<longrightarrow> svs_or_CSI img = Inr SVS \<longrightarrow>
                  convert_file dicom2mat now img = Inr (d', ori, dt, m) \<longrightarrow> d' = ?d"
    using c d by (auto dest!: convert_file_SVS_data)
  show ?thesis
    using c d at link by (intro exI [of _ ?c] exI [of _ ?d] conjI) simp_all
qed

section \<open>The loop over the files\<close>

lemma convert_loop_Inl:
  assumes "fn \<in> set fns" and "wrapper_from_file fn = Inr img"
      and "\<And>now. \<exists>e. convert_file dicom2mat now img = Inl e"
  shows "\<exists>e. convert_loop wrapper_from_file dicom2mat clock fname_out idx fns acc = Inl e"
  using assms(1)
proof (induction fns arbitrary: idx acc)
  case Nil
  then show ?case by simp
next
  case (Cons f fs)
  obtain dl ol wl ml ms where acc: "acc = (dl, ol, wl, ml, ms)"
    by (cases acc) auto
  show ?case
  proof (cases "wrapper_from_file f")
    case (Inl e)
    then show ?thesis by (simp add: acc)
  next
    case (Inr img')
    show ?thesis
    proof (cases "convert_file dicom2mat (clock idx) img'")
      case (Inl e)
      with Inr show ?thesis by (simp add: acc)
    next
      case r: (Inr res)
      obtain d ori dt m where res: "res = (d, ori, dt, m)"
        by (cases res) auto
      have "f \<noteq> fn"
        using assms(2,3) Inr r by (metis Inl_Inr_False sum.inject(2))
      then have mem: "fn \<in> set fs" using Cons.prems by simp
      show ?thesis
      proof (cases "if idx = 0 then main_str fname_out img' else Inr ms")
        case (Inl e)
        with Inr r res show ?thesis by (simp add: acc)
      next
        case s: (Inr stem)
        from Cons.IH [OF mem] obtain e where
          "convert_loop wrapper_from_file dicom2mat clock fname_out (Suc idx) fs
             (dl @ [d], ol @ [ori], wl @ [dt], ml @ [m], stem) = Inl e"
          by blast
        with Inr r res s show ?thesis by (simp add: acc)
      qed
    qed
  qed
qed

lemma convert_loop_Inr:
  assumes "length imgs = length fns" and "length ds = length fns" and "length os = length fns"
      and "length ws = length fns" and "length ms = length fns"
      and "\<And>i. i < length fns \<Longrightarrow> wrapper_from_file (fns ! i) = Inr (imgs ! i)"
      and "\<And>i. i < length fns \<Longrightarrow>
             convert_file dicom2mat (clock (idx + i)) (imgs ! i) = Inr (ds ! i, os ! i, ws ! i, ms ! i)"
      and "idx = 0 \<Longrightarrow> fns \<noteq> [] \<Longrightarrow> main_str fname_out (imgs ! 0) = Inr stem"
      and "idx \<noteq> 0 \<or> fns = [] \<Longrightarrow> stem = mainStr"
  shows "convert_loop wrapper_from_file dicom2mat clock fname_out idx fns (dl, ol, wl, ml, mainStr)
           = Inr (dl @ ds, ol @ os, wl @ ws, ml @ ms, stem)"
  using assms
proof (induction fns arbitrary: idx imgs ds os ws ms dl ol wl ml mainStr)
  case Nil
  then show ?case by simp
next
  case (Cons f fs)
  from Cons.prems(1-5) obtain img imgs' d ds' ori os' t ws' m ms' where
    eqs: "imgs = img # imgs'" "ds = d # ds'" "os = ori # os'" "ws = t # ws'" "ms = m # ms'"
    and lens: "length imgs' = length fs" "length ds' = length fs" "length os' = length fs"
      "length ws' = length fs" "length ms' = length fs"
    by (auto simp: length_Suc_conv)
  have w0: "wrapper_from_file f = Inr img"
    using Cons.prems(6) [of 0] by (simp add: eqs)
  have c0: "convert_file dicom2mat (clock idx) img = Inr (d, ori, t, m)"
    using Cons.prems(7) [of 0] by (simp add: eqs)
  have s0: "(if idx = 0 then main_str fname_out img else Inr mainStr) = Inr stem"
    using Cons.prems(8,9) by (auto simp: eqs)
  have w: "\<And>i. i < length fs \<Longrightarrow> wrapper_from_file (fs ! i) = Inr (imgs' ! i)"
    using Cons.prems(6) [of "Suc _"] by (simp add: eqs)
  have c: "\<And>i. i < length fs \<Longrightarrow>
             convert_file dicom2mat (clock (Suc idx + i)) (imgs' ! i) = Inr (ds' ! i, os' ! i, ws' ! i, ms' ! i)"
    using Cons.prems(7) [of "Suc _"] by (simp add: eqs)
  have "convert_loop wrapper_from_file dicom2mat clock fname_out (Suc idx) fs
          (dl @ [d], ol @ [ori], wl @ [t], ml @ [m], stem)
        = Inr ((dl @ [d]) @ ds', (ol @ [ori]) @ os', (wl @ [t]) @ ws', (ml @ [m]) @ ms', stem)"
    using lens w c by (intro Cons.IH) simp_all
  then show ?case
    using w0 c0 s0 by (simp add: eqs)
qed


lemma ravel_append:
  "length sh = length idx \<Longrightarrow> ravel (sh @ [n]) (idx @ [j]) = ravel sh idx * n + j"
  by simp

lemma foldl_ravel_less:
  "list_all2 (\<lambda>i n. i < n) idx sh \<Longrightarrow> acc < A \<Longrightarrow>
     foldl (\<lambda>acc (n, i). acc * n + i) (acc::nat) (zip sh idx) < A * prod_list sh"
proof (induction idx sh arbitrary: acc A rule: list_all2_induct)
  case Nil
  then show ?case by simp
next
  case (Cons i idx n sh)
  have "acc * n + i < A * n"
    using Cons.prems Cons.hyps(1) by (rule index_bound)
  from Cons.IH [OF this] show ?case by (simp add: mult.assoc)
qed

lemma ravel_less: "valid_index sh idx \<Longrightarrow> ravel sh idx < prod_list sh"
  using foldl_ravel_less [of idx sh 0 1] by (simp add: valid_index_def)

lemma np_stack_last_at:
  assumes "arrays \<noteq> []" and "\<forall>b \<in> set arrays. shape b = sh"
  shows "\<exists>st. np_stack_last arrays = Inr st \<and> shape st = sh @ [length arrays]
           \<and> (\<forall>j < length arrays. \<forall>idx. valid_index sh idx \<longrightarrow>
                 nd_at st (idx @ [j]) = nd_at (arrays ! j) idx)"
proof -
  obtain a rest where ar: "arrays = a # rest"
    using assms(1) by (cases arrays) auto
  let ?f = "\<lambda>p. map (\<lambda>b. flat b ! p) arrays"
  let ?st = "\<lparr>shape = sh @ [length arrays], flat = concat (map ?f [0..<prod_list sh])\<rparr>"
  have sha: "shape a = sh" using assms(2) ar by simp
  have st: "np_stack_last arrays = Inr ?st"
    using assms(2) sha by (simp add: np_stack_last_def ar)
  have "nd_at ?st (idx @ [j]) = nd_at (arrays ! j) idx"
    if j: "j < length arrays" and v: "valid_index sh idx" for j idx
  proof -
    have len: "length sh = length idx"
      using v by (simp add: valid_index_def list_all2_lengthD)
    have p: "ravel sh idx < prod_list sh"
      using v by (rule ravel_less)
    have shj: "shape (arrays ! j) = sh"
      using assms(2) j by simp
    have "nd_at ?st (idx @ [j]) = concat (map ?f [0..<prod_list sh]) ! (ravel sh idx * length arrays + j)"
      using len by (simp only: nd_at_def ravel_append ndarray.simps)
    also have "\<dots> = ?f (ravel sh idx) ! j"
      using _ p j by (rule nth_concat_map_upt) simp
    also have "\<dots> = nd_at (arrays ! j) idx"
      using j by (simp add: nd_at_def shj)
    finally show ?thesis .
  qed
  with st show ?thesis by (intro exI [of _ ?st]) simp
qed

section \<open>The two branches of the batch\<close>

lemma all_equal_shapes:
  assumes "all_equal (map shape ds)"
  shows "\<forall>b \<in> set ds. shape b = shape (ds ! 0)"
proof
  fix b
  assume b: "b \<in> set ds"
  then have "ds \<noteq> []" by auto
  then have "ds ! 0 \<in> set ds" by simp
  then have "shape (ds ! 0) \<in> set (map shape ds)" and "shape b \<in> set (map shape ds)"
    using b by simp_all
  moreover have "\<forall>x \<in> set (map shape ds). \<forall>y \<in> set (map shape ds). x = y"
    using assms by (simp only: all_equal_set)
  ultimately show "shape b = shape (ds ! 0)" by blast
qed

lemma multi_file_dicom_combine:
  assumes "convert_loop wrapper_from_file dicom2mat clock fname_out 0 files_in ([], [], [], [], [])
             = Inr (ds, os, ws, ms, stem)"
      and "combine_test ds os ws"
      and "ds \<noteq> []" and "os \<noteq> []" and "ws \<noteq> []" and "ms \<noteq> []"
  shows "\<exists>combined. np_stack_last ds = Inr combined
           \<and> multi_file_dicom wrapper_from_file dicom2mat clock files_in fname_out tag verbose
               = Inr ([NIfTI_MRS combined (Q44 (os ! 0)) (ws ! 0)
                        ((if truthy tag then set_dim_info 0 (the tag) else id)
                           (set_standard_def ''OriginalFile'' (PList files_in) (ms ! 0)))],
                      [stem])"
proof -
  have "\<forall>b \<in> set ds. shape b = shape (ds ! 0)"
    using assms(2) by (simp add: combine_test_def all_equal_shapes)
  with assms(3) obtain combined where st: "np_stack_last ds = Inr combined"
    using np_stack_last_at by blast
  show ?thesis
    using assms st by (simp add: multi_file_dicom_def getitem_def Let_def)
qed

lemma zip6_map:
  assumes "length ds = n" and "length os = n" and "length ws = n" and "length ms = n"
      and "length fs = n"
  shows "map f (zip [0..<n] (zip ds (zip os (zip ws (zip ms fs)))))
           = map (\<lambda>i. f (i, ds ! i, os ! i, ws ! i, ms ! i, fs ! i)) [0..<n]"
  using assms by (intro nth_equalityI) simp_all

lemma multi_file_dicom_separate:
  assumes "convert_loop wrapper_from_file dicom2mat clock fname_out 0 files_in ([], [], [], [], [])
             = Inr (ds, os, ws, ms, stem)"
      and "\<not> combine_test ds os ws"
      and "length ds = length files_in" and "length os = length files_in"
      and "length ws = length files_in" and "length ms = length files_in"
  shows "multi_file_dicom wrapper_from_file dicom2mat clock files_in fname_out tag verbose
           = Inr (map (\<lambda>i. NIfTI_MRS (ds ! i) (Q44 (os ! i)) (ws ! i)
                              (set_standard_def ''OriginalFile'' (PList [files_in ! i]) (ms ! i)))
                      [0..<length files_in],
                  map (\<lambda>i. stem @ ''_'' @ format_03 i) [0..<length files_in])"
  using assms by (simp add: multi_file_dicom_def zip6_map)

lemma digit_char_0: "digit_char 0 = CHR ''0''"
  by (simp add: digit_char_def)

lemma str_nat_1: "n < 10 \<Longrightarrow> str_nat n = [digit_char n]"
  by (subst str_nat.simps) simp

lemma str_nat_2: "10 \<le> n \<Longrightarrow> n < 100 \<Longrightarrow> str_nat n = [digit_char (n div 10), digit_char (n mod 10)]"
  by (subst str_nat.simps) (simp add: str_nat_1)

lemma str_nat_3:
  "100 \<le> n \<Longrightarrow> n < 1000 \<Longrightarrow>
     str_nat n = [digit_char (n div 100), digit_char (n div 10 mod 10), digit_char (n mod 10)]"
proof -
  assume a: "100 \<le> n" "n < 1000"
  then have "10 \<le> n div 10" "n div 10 < 100" by simp_all
  then have "str_nat (n div 10) = [digit_char (n div 10 div 10), digit_char (n div 10 mod 10)]"
    by (rule str_nat_2)
  moreover have "n div 10 div 10 = n div 100" by (simp add: div_mult2_eq [symmetric])
  ultimately show ?thesis
    using a by (subst str_nat.simps) simp
qed

lemma format_03_three_digits:
  assumes "i < 1000"
  shows "format_03 i = [digit_char (i div 100), digit_char (i div 10 mod 10), digit_char (i mod 10)]"
proof -
  consider "i < 10" | "10 \<le> i" "i < 100" | "100 \<le> i"
    by linarith
  then show ?thesis
  proof cases
    case 1
    then show ?thesis
      by (simp add: format_03_def str_nat_1 digit_char_0 numeral_3_eq_3 numeral_2_eq_2)
  next
    case 2
    then show ?thesis
      by (simp add: format_03_def str_nat_2 digit_char_0)
  next
    case 3
    then show ?thesis
      using assms by (simp add: format_03_def str_nat_3)
  qed
qed

section \<open>Evaluating the examples\<close>

lemmas example_defs = example_img_def example_tags_def example_dcm_def tag_of_def
lemmas lookup_defs = csa_item_def csa_items_def csa_n_items_def getitem_def attr_def

lemma example_extract:
  "extractDicomMetadata now (example_img r c f p dw coil s buf) =
     Inr (example_meta now (if coil = [] then PStr ''HEA;HEP'' else coil ! 0))"
  by (simp add: extractDicomMetadata_def example_defs lookup_defs example_meta_def)

lemma example_svs_or_CSI:
  "svs_or_CSI (example_img 1 1 1 p dw coil s buf) = Inr SVS"
  "svs_or_CSI (example_img 2 3 1 p dw coil s buf) = Inr CSI"
  "svs_or_CSI (example_img 2 1 1 p dw coil s buf) = Inr CSI"
  by (simp_all add: svs_or_CSI_def example_csa_item_simps np_prod_def)

lemma example_elem: "elem_7fe1_1010 (dcm (example_img r c f p dw coil s buf)) = Some buf"
  by (simp add: example_defs)

lemma example_process_svs:
  assumes "decode_complex buf = Inr d"
  shows "process_siemens_svs example_dicom2mat now (example_img r c f p dw coil s buf) =
           Inr (d, NIFTIOrient example_Q44, real dw * (1 / 10 ^ 9),
                example_meta now (if coil = [] then PStr ''HEA;HEP'' else coil ! 0))"
  using assms
  by (simp add: process_siemens_svs_def svs_geometry_def frombuffer_7fe1_1010_def example_elem
        example_extract reshape_2_3_def example_dicom2mat_def negate_first_two_rows_def example_Q44_def)
     (simp add: example_defs lookup_defs)

lemma example_process_csi:
  assumes "decode_complex buf = Inr d" and "np_reshape d [f, r, c, p] = Inr d'"
      and "np_moveaxis_012_210 d' = Inr d''"
  shows "process_siemens_csi example_dicom2mat now (example_img r c f p dw coil s buf) =
           Inr (d'', NIFTIOrient example_Q44, real dw * (1 / 10 ^ 9),
                example_meta now (if coil = [] then PStr ''HEA;HEP'' else coil ! 0))"
  using assms
  by (simp add: process_siemens_csi_def csi_geometry_def frombuffer_7fe1_1010_def example_elem
        example_extract reshape_2_3_def example_dicom2mat_def negate_first_two_rows_def example_Q44_def
        example_csa_item_simps)
     (simp add: example_defs lookup_defs)

lemma example_convert_svs4:
  "convert_file example_dicom2mat now (example_img 1 1 1 p dw [] s [x0, x1, x2, x3])
     = Inr (\<lparr>shape = [1, 1, 1, 2], flat = [Complex x0 (- x1), Complex x2 (- x3)]\<rparr>,
            NIFTIOrient example_Q44, real dw * (1 / 10 ^ 9), example_meta now (PStr ''HEA;HEP''))"
proof -
  have "decode_complex [x0, x1, x2, x3] = Inr \<lparr>shape = [2], flat = [Complex x0 (- x1), Complex x2 (- x3)]\<rparr>"
    by (simp add: decode_complex_def np_sub_1d_def complex_eq_iff)
  from example_process_svs [OF this, of now 1 1 1 p dw "[]" s] show ?thesis
    unfolding convert_file_def
    by (simp only: example_svs_or_CSI bindE_Inr simp_thms if_True prod.case ndarray.simps np_reshape_def)
       (simp add: )
qed

lemma example_decoder_simps:
  "example_decoder ''a.dcm'' = Inr (example_img 1 1 1 2 500000 [] ''svs_press'' [1, 2, 3, 4])"
  "example_decoder ''b.dcm'' = Inr (example_img 1 1 1 2 500000 [] ''svs_press'' [5, 6, 7, 8])"
  "example_decoder ''c.dcm'' = Inr (example_img 1 1 1 2 600000 [] ''svs_press'' [9, 10, 11, 12])"
  "example_decoder ''d.dcm'' = Inr (example_img 1 1 1 2 500000 [] ''other_series'' [1, 2, 3, 4])"
  "example_decoder ''odd3.dcm'' = Inr (example_img 1 1 1 2 500000 [] ''svs_press'' [1, 2, 3])"
  "example_decoder ''odd5.dcm'' = Inr (example_img 1 1 1 2 500000 [] ''svs_press'' [1, 2, 3, 4, 5])"
  "example_decoder ''csi.dcm'' = Inr (example_img 2 3 1 1 500000 [] ''csi_fid'' [1, 2, 3, 4, 5, 6, 7, 8, 9, 10, 11, 12])"
  "example_decoder ''csi_odd3.dcm'' = Inr (example_img 2 1 1 1 500000 [] ''csi_fid'' [1, 2, 3])"
  "example_decoder ''csi_short.dcm'' = Inr (example_img 2 3 1 1 500000 [] ''csi_fid'' [1, 2, 3, 4])"
  by (simp_all add: example_decoder_def)

lemma example_main_str:
  "main_str None (example_img r c f p dw coil s buf) = Inr s"
  "main_str (Some []) (example_img r c f p dw coil s buf) = Inr s"
  "main_str (Some (x # xs)) img = Inr (x # xs)"
  by (simp_all add: main_str_def attr_def example_defs)

text \<open>The single-voxel example file with buffer \<open>[1, 2, 3, 4]\<close>: shape and both samples.\<close>

theorem svs_extraction_samples_witness:
  "length [1, 2, 3, 4 :: real] = 2 * 2
   \<and> (\<exists>d ori dt m.
         convert_file example_dicom2mat ''now'' (example_img 1 1 1 2 500000 [] ''svs_press'' [1, 2, 3, 4])
           = Inr (d, ori, dt, m)
         \<and> shape d = [1, 1, 1, 2]
         \<and> nd_at d [0, 0, 0, 0] = Complex 1 (- 2) \<and> nd_at d [0, 0, 0, 1] = Complex 3 (- 4))"
proof -
  have len: "length [1, 2, 3, 4 :: real] = 2 * 2" by simp
  from svs_extraction_samples [OF len] obtain c d where
    c: "decode_complex [1, 2, 3, 4] = Inr c" and
    d: "np_reshape c ([1, 1, 1] @ shape c) = Inr d" and
    sh: "shape d = [1, 1, 1, 2]" and
    at: "\<forall>k < 2. nd_at d [0, 0, 0, k]
           = complex_of_real ([1, 2, 3, 4] ! (2 * k)) - \<i> * complex_of_real ([1, 2, 3, 4] ! (2 * k + 1))"
    by blast
  have conv: "convert_file example_dicom2mat ''now'' (example_img 1 1 1 2 500000 [] ''svs_press'' [1, 2, 3, 4])
      = Inr (d, NIFTIOrient example_Q44, real 500000 * (1 / 10 ^ 9), example_meta ''now'' (PStr ''HEA;HEP''))"
    using c d by (simp add: convert_file_def example_svs_or_CSI example_process_svs del: One_nat_def)
  have a0: "nd_at d [0, 0, 0, 0] = Complex 1 (- 2)"
    using at [rule_format, of 0] by (simp add: complex_eq_iff)
  have a1: "nd_at d [0, 0, 0, 1] = Complex 3 (- 4)"
    using at [rule_format, of 1] by (simp add: complex_eq_iff)
  show ?thesis
    using len conv sh a0 a1 by blast
qed

section \<open>The multi-voxel spectrum\<close>




section \<open>Buffers of the wrong length\<close>

lemma np_sub_1d_length:
  assumes "np_sub_1d a b = Inr r"
  shows "length r = (if length a = length b then length a else if length a = 1 then length b else length a)"
  using assms by (auto simp: np_sub_1d_def split: if_splits)

lemma decode_complex_length:
  assumes "decode_complex buf = Inr d"
  shows "(even (length buf) \<and> length (flat d) = length buf div 2)
       \<or> (length buf = 1 \<and> length (flat d) = 0)
       \<or> (length buf = 3 \<and> length (flat d) = 2)"
proof -
  let ?a = "map complex_of_real (slice_0_2 buf)"
  let ?b = "map (\<lambda>x. \<i> * complex_of_real x) (slice_1_2 buf)"
  from assms obtain r where r: "np_sub_1d ?a ?b = Inr r" and d: "flat d = r"
    by (auto simp: decode_complex_def bindE_eq_Inr)
  have la: "length ?a = (length buf + 1) div 2" and lb: "length ?b = length buf div 2"
    by (simp_all add: length_slice_0_2 length_slice_1_2)
  have ne: "\<not> (odd (length buf) \<and> 5 \<le> length buf)"
    using assms decode_complex_odd [of buf] by auto
  have "length r = (if (length buf + 1) div 2 = length buf div 2 then (length buf + 1) div 2
                    else if (length buf + 1) div 2 = 1 then length buf div 2 else (length buf + 1) div 2)"
    using np_sub_1d_length [OF r] by (simp only: la lb)
  with ne show ?thesis
    unfolding d by (cases "even (length buf)") (auto elim!: evenE oddE split: if_splits)
qed

lemma process_siemens_csi_reshape_fails:
  assumes "elem_7fe1_1010 (dcm img) = Some buf" and "decode_complex buf = Inr d"
      and "csa_item img ''Rows'' 0 = Inr (PInt rows)"
      and "csa_item img ''Columns'' 0 = Inr (PInt cols)"
      and "csa_item img ''NumberOfFrames'' 0 = Inr (PInt slices)"
      and "csa_item img ''DataPointColumns'' 0 = Inr (PInt pts)"
      and "length (flat d) \<noteq> slices * rows * cols * pts"
  shows "process_siemens_csi dicom2mat now img = Inl ValueError"
  using assms
  by (simp add: process_siemens_csi_def frombuffer_7fe1_1010_def np_reshape_def)

lemma process_decode_fails:
  assumes "elem_7fe1_1010 (dcm img) = Some buf" and "decode_complex buf = Inl e"
  shows "process_siemens_svs dicom2mat now img = Inl e"
    and "process_siemens_csi dicom2mat now img = Inl e"
  using assms
  by (simp_all add: process_siemens_svs_def process_siemens_csi_def frombuffer_7fe1_1010_def)

text \<open>
  Claim C7, as amended. The extraction of a file fails with ValueError (the specification's
  DataLengthError) whenever its buffer has an odd length of at least 5, and on the
  multi-voxel path whenever the buffer length is not twice the product of the four counts,
  the two cases apart in which broadcasting hides the mismatch (length 1 with product 0,
  length 3 with product 2). A batch that contains such a file returns an error and no
  output unit.
\<close>

theorem data_length_failure:
  assumes "fn \<in> set files_in" and "wrapper_from_file fn = Inr img"
      and "elem_7fe1_1010 (dcm img) = Some buf" and "svs_or_CSI img = Inr ty"
      and "(odd (length buf) \<and> 5 \<le> length buf)
         \<or> (ty = CSI
            \<and> csa_item img ''Rows'' 0 = Inr (PInt rows)
            \<and> csa_item img ''Columns'' 0 = Inr (PInt cols)
            \<and> csa_item img ''NumberOfFrames'' 0 = Inr (PInt slices)
            \<and> csa_item img ''DataPointColumns'' 0 = Inr (PInt pts)
            \<and> length buf \<noteq> 2 * (slices * rows * cols * pts)
            \<and> \<not> (length buf = 1 \<and> slices * rows * cols * pts = 0)
            \<and> \<not> (length buf = 3 \<and> slices * rows * cols * pts = 2))"
  shows "(\<forall>now. convert_file dicom2mat now img = Inl ValueError)
       \<and> (\<exists>e. multi_file_dicom wrapper_from_file dicom2mat clock files_in fname_out tag verbose = Inl e)"
proof -
  have conv: "convert_file dicom2mat now img = Inl ValueError" for now
  proof (cases "decode_complex buf")
    case (Inl e)
    have "e = ValueError"
      using Inl by (auto simp: decode_complex_def np_sub_1d_def bindE_def split: if_splits)
    with Inl assms(3,4) show ?thesis
      by (simp add: convert_file_def process_decode_fails)
  next
    case (Inr d)
    have odd_ok: "\<not> (odd (length buf) \<and> 5 \<le> length buf)"
      using Inr decode_complex_odd [of buf] by auto
    with assms(5) have csi: "ty = CSI"
      and tags: "csa_item img ''Rows'' 0 = Inr (PInt rows)" "csa_item img ''Columns'' 0 = Inr (PInt cols)"
        "csa_item img ''NumberOfFrames'' 0 = Inr (PInt slices)"
        "csa_item img ''DataPointColumns'' 0 = Inr (PInt pts)"
      and ne: "length buf \<noteq> 2 * (slices * rows * cols * pts)"
        "\<not> (length buf = 1 \<and> slices * rows * cols * pts = 0)"
        "\<not> (length buf = 3 \<and> slices * rows * cols * pts = 2)"
      by blast+
    have "length (flat d) \<noteq> slices * rows * cols * pts"
      using decode_complex_length [OF Inr] ne by auto
    with assms(3) Inr tags have "process_siemens_csi dicom2mat now img = Inl ValueError"
      by (rule process_siemens_csi_reshape_fails)
    with assms(4) csi show ?thesis
      by (simp add: convert_file_def)
  qed
  then have "\<And>now. \<exists>e. convert_file dicom2mat now img = Inl e" by blast
  with assms(1,2) obtain e where
    "convert_loop wrapper_from_file dicom2mat clock fname_out 0 files_in ([], [], [], [], []) = Inl e"
    using convert_loop_Inl by blast
  then have "multi_file_dicom wrapper_from_file dicom2mat clock files_in fname_out tag verbose = Inl e"
    by (simp add: multi_file_dicom_def)
  with conv show ?thesis by blast
qed

section \<open>The combine path\<close>

lemma main_str_cases:
  "main_str fname_out img = Inr stem \<longleftrightarrow>
     (if truthy fname_out then fname_out = Some stem else SeriesDescription (dcm img) = Some stem)"
  by (cases fname_out) (auto simp: main_str_def attr_def split: option.splits)

lemma set_standard_def_simps:
  "standard_defs (set_standard_def k v m) = (standard_defs m)(k \<mapsto> v)"
  "user_defs (set_standard_def k v m) = user_defs m"
  "dim_info (set_standard_def k v m) = dim_info m"
  "SpectrometerFrequency (set_standard_def k v m) = SpectrometerFrequency m"
  "ResonantNucleus (set_standard_def k v m) = ResonantNucleus m"
  by (simp_all add: set_standard_def_def)

lemma set_dim_info_simps:
  "standard_defs (set_dim_info i t m) = standard_defs m"
  "user_defs (set_dim_info i t m) = user_defs m"
  "dim_info (set_dim_info i t m) = (dim_info m)(i \<mapsto> t)"
  by (simp_all add: set_dim_info_def)

lemma set_user_def_simps:
  "standard_defs (set_user_def k v doc m) = standard_defs m"
  "user_defs (set_user_def k v doc m) = (user_defs m)(k \<mapsto> (v, doc))"
  "dim_info (set_user_def k v doc m) = dim_info m"
  by (simp_all add: set_user_def_def)

text \<open>
  Claim C2, as amended. For a batch of at least one file whose per-file conversions all
  succeed and whose combinability test is true, exactly one output unit is returned. Its
  data array has the shape of the per-file spectra with one more trailing axis of length N,
  and holds file \<open>j\<close>'s spectrum at position \<open>j\<close> of that axis; orientation, dwell time
  and metadata are the first file's; the metadata gains the standard field OriginalFile
  with all N file names in input order (and the dimension tag when one is given); the one
  output name is the override when it is given and not empty, otherwise the first file's
  SeriesDescription.
\<close>

theorem combine_path_output:
  assumes "files_in \<noteq> []"
      and "length imgs = length files_in" and "length ds = length files_in"
      and "length os = length files_in" and "length ws = length files_in"
      and "length ms = length files_in"
      and "\<forall>i < length files_in. wrapper_from_file (files_in ! i) = Inr (imgs ! i)"
      and "\<forall>i < length files_in.
             convert_file dicom2mat (clock i) (imgs ! i) = Inr (ds ! i, os ! i, ws ! i, ms ! i)"
      and "main_str fname_out (imgs ! 0) = Inr stem"
      and "combine_test ds os ws"
  shows "\<exists>combined meta.
           multi_file_dicom wrapper_from_file dicom2mat clock files_in fname_out tag verbose
             = Inr ([NIfTI_MRS combined (Q44 (os ! 0)) (ws ! 0) meta], [stem])
         \<and> shape combined = shape (ds ! 0) @ [length files_in]
         \<and> (\<forall>j < length files_in. \<forall>idx. valid_index (shape (ds ! 0)) idx \<longrightarrow>
               nd_at combined (idx @ [j]) = nd_at (ds ! j) idx)
         \<and> meta = (if truthy tag then set_dim_info 0 (the tag) else id)
                    (set_standard_def ''OriginalFile'' (PList files_in) (ms ! 0))
         \<and> standard_defs meta = (standard_defs (ms ! 0))(''OriginalFile'' \<mapsto> PList files_in)
         \<and> user_defs meta = user_defs (ms ! 0)
         \<and> (if truthy fname_out then fname_out = Some stem
              else SeriesDescription (dcm (imgs ! 0)) = Some stem)"
proof -
  have loop: "convert_loop wrapper_from_file dicom2mat clock fname_out 0 files_in ([], [], [], [], [])
               = Inr ([] @ ds, [] @ os, [] @ ws, [] @ ms, stem)"
    using assms(1-9) by (intro convert_loop_Inr) simp_all
  have ne: "ds \<noteq> []" "os \<noteq> []" "ws \<noteq> []" "ms \<noteq> []"
    using assms(1,3-6) by auto
  from multi_file_dicom_combine [OF loop [simplified] assms(10) ne, of tag verbose]
  obtain combined where st: "np_stack_last ds = Inr combined"
    and res: "multi_file_dicom wrapper_from_file dicom2mat clock files_in fname_out tag verbose
               = Inr ([NIfTI_MRS combined (Q44 (os ! 0)) (ws ! 0)
                        ((if truthy tag then set_dim_info 0 (the tag) else id)
                           (set_standard_def ''OriginalFile'' (PList files_in) (ms ! 0)))],
                      [stem])"
    by auto
  have shapes: "\<forall>b \<in> set ds. shape b = shape (ds ! 0)"
    using assms(10) by (simp add: combine_test_def all_equal_shapes)
  from np_stack_last_at [OF ne(1) shapes] st
  have sh: "shape combined = shape (ds ! 0) @ [length ds]"
    and at: "\<forall>j < length ds. \<forall>idx. valid_index (shape (ds ! 0)) idx \<longrightarrow>
               nd_at combined (idx @ [j]) = nd_at (ds ! j) idx"
    by auto
  let ?meta = "(if truthy tag then set_dim_info 0 (the tag) else id)
                 (set_standard_def ''OriginalFile'' (PList files_in) (ms ! 0))"
  have m1: "standard_defs ?meta = (standard_defs (ms ! 0))(''OriginalFile'' \<mapsto> PList files_in)"
    by (simp add: set_standard_def_simps set_dim_info_simps)
  have m2: "user_defs ?meta = user_defs (ms ! 0)"
    by (simp add: set_standard_def_simps set_dim_info_simps)
  have stem: "if truthy fname_out then fname_out = Some stem
              else SeriesDescription (dcm (imgs ! 0)) = Some stem"
    using assms(9) by (simp only: main_str_cases)
  show ?thesis
    apply (rule exI [of _ combined], rule exI [of _ ?meta], intro conjI)
    subgoal by (rule res)
    subgoal using sh assms(3) by simp
    subgoal using at assms(3) by simp
    subgoal by (rule refl)
    subgoal by (rule m1)
    subgoal by (rule m2)
    subgoal by (rule stem)
    done
qed

theorem combine_path_output_witness:
  "\<exists>combined meta.
     multi_file_dicom example_decoder example_dicom2mat example_clock
       [''a.dcm'', ''b.dcm'', ''d.dcm''] None None False
       = Inr ([NIfTI_MRS combined example_Q44 (5 / 10000) meta], [''svs_press''])
     \<and> shape combined = [1, 1, 1, 2, 3]
     \<and> nd_at combined [0, 0, 0, 1, 0] = Complex 3 (- 4)
     \<and> nd_at combined [0, 0, 0, 1, 1] = Complex 7 (- 8)
     \<and> standard_defs meta ''OriginalFile'' = Some (PList [''a.dcm'', ''b.dcm'', ''d.dcm''])
     \<and> standard_defs meta ''ProtocolName'' = Some (PStr ''svs_protocol'')"
proof -
  let ?files = "[''a.dcm'', ''b.dcm'', ''d.dcm'']"
  let ?imgs = "[example_img 1 1 1 2 500000 [] ''svs_press'' [1, 2, 3, 4],
                example_img 1 1 1 2 500000 [] ''svs_press'' [5, 6, 7, 8],
                example_img 1 1 1 2 500000 [] ''other_series'' [1, 2, 3, 4]]"
  let ?ds = "[\<lparr>shape = [1, 1, 1, 2], flat = [Complex 1 (- 2), Complex 3 (- 4)]\<rparr>,
              \<lparr>shape = [1, 1, 1, 2], flat = [Complex 5 (- 6), Complex 7 (- 8)]\<rparr>,
              \<lparr>shape = [1, 1, 1, 2], flat = [Complex 1 (- 2), Complex 3 (- 4)]\<rparr>]"
  let ?os = "[NIFTIOrient example_Q44, NIFTIOrient example_Q44, NIFTIOrient example_Q44]"
  let ?ws = "[real 500000 * (1 / 10 ^ 9), real 500000 * (1 / 10 ^ 9), real 500000 * (1 / 10 ^ 9)]"
  let ?ms = "[example_meta (example_clock 0) (PStr ''HEA;HEP''),
              example_meta (example_clock (Suc 0)) (PStr ''HEA;HEP''),
              example_meta (example_clock (Suc (Suc 0))) (PStr ''HEA;HEP'')]"
  have w: "\<forall>i < length ?files. example_decoder (?files ! i) = Inr (?imgs ! i)"
    by (auto simp: less_Suc_eq example_decoder_simps)
  have c: "\<forall>i < length ?files.
      convert_file example_dicom2mat (example_clock i) (?imgs ! i) = Inr (?ds ! i, ?os ! i, ?ws ! i, ?ms ! i)"
    by (auto simp: less_Suc_eq example_convert_svs4 simp del: One_nat_def)
  have s: "main_str None (?imgs ! 0) = Inr ''svs_press''"
    by (simp add: example_main_str)
  have t: "combine_test ?ds ?os ?ws"
    by (simp add: combine_test_def all_equal_def)
  from combine_path_output [of ?files ?imgs ?ds ?os ?ws ?ms example_decoder example_dicom2mat example_clock
      None "''svs_press''" None False, OF _ _ _ _ _ _ w c s t]
  obtain combined meta where
    r: "multi_file_dicom example_decoder example_dicom2mat example_clock ?files None None False
         = Inr ([NIfTI_MRS combined (Q44 (?os ! 0)) (?ws ! 0) meta], [''svs_press''])"
    and sh: "shape combined = shape (?ds ! 0) @ [length ?files]"
    and at: "\<forall>j < length ?files. \<forall>idx. valid_index (shape (?ds ! 0)) idx \<longrightarrow>
               nd_at combined (idx @ [j]) = nd_at (?ds ! j) idx"
    and m: "standard_defs meta = (standard_defs (?ms ! 0))(''OriginalFile'' \<mapsto> PList ?files)"
    by auto
  have a0: "nd_at combined [0, 0, 0, 1, 0] = Complex 3 (- 4)"
    using at [rule_format, of 0 "[0, 0, 0, 1]"] by (simp add: valid_index_def nd_at_def)
  have a1: "nd_at combined [0, 0, 0, 1, 1] = Complex 7 (- 8)"
    using at [rule_format, of 1 "[0, 0, 0, 1]"] by (simp add: valid_index_def nd_at_def)
  have m1: "standard_defs meta ''OriginalFile'' = Some (PList ?files)"
    by (simp add: m)
  have m2: "standard_defs meta ''ProtocolName'' = Some (PStr ''svs_protocol'')"
    by (simp add: m example_meta_def set_standard_def_simps set_user_def_simps)
  show ?thesis
    apply (rule exI [of _ combined], rule exI [of _ meta], intro conjI)
    subgoal using r by (simp add: example_Q44_def)
    subgoal using sh by simp
    subgoal by (rule a0)
    subgoal by (rule a1)
    subgoal by (rule m1)
    subgoal by (rule m2)
    done
qed

section \<open>More example evaluations\<close>

lemma multi_file_dicom_single:
  assumes "wrapper_from_file fn = Inr img"
      and "convert_file dicom2mat (clock 0) img = Inr (d, ori, dt, m)"
      and "main_str fname_out img = Inr stem"
  shows "multi_file_dicom wrapper_from_file dicom2mat clock [fn] fname_out tag verbose
           = Inr ([NIfTI_MRS \<lparr>shape = shape d @ [1],
                                flat = concat (map (\<lambda>p. [flat d ! p]) [0..<prod_list (shape d)])\<rparr>
                     (Q44 ori) dt
                     ((if truthy tag then set_dim_info 0 (the tag) else id)
                        (set_standard_def ''OriginalFile'' (PList [fn]) m))],
                  [stem])"
proof -
  have loop: "convert_loop wrapper_from_file dicom2mat clock fname_out 0 [fn] ([], [], [], [], [])
               = Inr ([d], [ori], [dt], [m], stem)"
    using assms by simp
  have t: "combine_test [d] [ori] [dt]"
    by (simp add: combine_test_def all_equal_def)
  have st: "np_stack_last [d] = Inr \<lparr>shape = shape d @ [1],
              flat = concat (map (\<lambda>p. [flat d ! p]) [0..<prod_list (shape d)])\<rparr>"
    by (simp add: np_stack_last_def)
  from multi_file_dicom_combine [OF loop t, of tag verbose] st show ?thesis
    by simp
qed

lemma example_convert_odd3:
  "convert_file example_dicom2mat now (example_img 1 1 1 p dw [] s [x0, x1, x2])
     = Inr (\<lparr>shape = [1, 1, 1, 2], flat = [Complex x0 (- x1), Complex x2 (- x1)]\<rparr>,
            NIFTIOrient example_Q44, real dw * (1 / 10 ^ 9), example_meta now (PStr ''HEA;HEP''))"
proof -
  have "decode_complex [x0, x1, x2] = Inr \<lparr>shape = [2], flat = [Complex x0 (- x1), Complex x2 (- x1)]\<rparr>"
    by (simp add: decode_complex_def np_sub_1d_def complex_eq_iff)
  from example_process_svs [OF this, of now 1 1 1 p dw "[]" s] show ?thesis
    unfolding convert_file_def
    by (simp only: example_svs_or_CSI bindE_Inr simp_thms if_True prod.case ndarray.simps np_reshape_def)
       (simp add: )
qed

lemma example_convert_csi_odd3:
  "convert_file example_dicom2mat now (example_img 2 1 1 1 dw [] s [x0, x1, x2])
     = Inr (\<lparr>shape = [1, 2, 1, 1], flat = [Complex x0 (- x1), Complex x2 (- x1)]\<rparr>,
            NIFTIOrient example_Q44, real dw * (1 / 10 ^ 9), example_meta now (PStr ''HEA;HEP''))"
proof -
  have d: "decode_complex [x0, x1, x2] = Inr \<lparr>shape = [2], flat = [Complex x0 (- x1), Complex x2 (- x1)]\<rparr>"
    by (simp add: decode_complex_def np_sub_1d_def complex_eq_iff)
  have r: "np_reshape \<lparr>shape = [2], flat = [Complex x0 (- x1), Complex x2 (- x1)]\<rparr> [1, 2, 1, 1]
           = Inr \<lparr>shape = [1, 2, 1, 1], flat = [Complex x0 (- x1), Complex x2 (- x1)]\<rparr>"
    by (simp add: np_reshape_def)
  have m: "np_moveaxis_012_210 \<lparr>shape = [1, 2, 1, 1], flat = [Complex x0 (- x1), Complex x2 (- x1)]\<rparr>
           = Inr \<lparr>shape = [1, 2, 1, 1], flat = [Complex x0 (- x1), Complex x2 (- x1)]\<rparr>"
    by (simp add: np_moveaxis_012_210_def nd_at_def upt_rec numeral_2_eq_2)
  from example_process_csi [OF d r m, of now dw "[]" s] show ?thesis
    unfolding convert_file_def
    by (simp only: example_svs_or_CSI bindE_Inr simp_thms if_False if_True mrs_type.simps)
qed

text \<open>
  The claim as first stated fails on buffers of length 3: the three numbers pair up by
  broadcasting into two samples, on the single-voxel path and (with two voxels of one
  point) on the multi-voxel path, and an output unit is produced.
\<close>

theorem odd_buffer_accepted_counterexample:
  "odd (length [1, 2, 3 :: real])
   \<and> convert_file example_dicom2mat ''now'' (example_img 1 1 1 2 500000 [] ''svs_press'' [1, 2, 3])
       = Inr (\<lparr>shape = [1, 1, 1, 2], flat = [Complex 1 (- 2), Complex 3 (- 2)]\<rparr>,
              NIFTIOrient example_Q44, 500000 * (1 / 10 ^ 9), example_meta ''now'' (PStr ''HEA;HEP''))
   \<and> map_sum id snd (multi_file_dicom example_decoder example_dicom2mat example_clock
                        [''odd3.dcm''] None None False) = Inr [''svs_press'']
   \<and> svs_or_CSI (example_img 2 1 1 1 500000 [] ''csi_fid'' [1, 2, 3]) = Inr CSI
   \<and> length [1, 2, 3 :: real] \<noteq> 2 * (1 * 2 * 1 * 1)
   \<and> convert_file example_dicom2mat ''now'' (example_img 2 1 1 1 500000 [] ''csi_fid'' [1, 2, 3])
       = Inr (\<lparr>shape = [1, 2, 1, 1], flat = [Complex 1 (- 2), Complex 3 (- 2)]\<rparr>,
              NIFTIOrient example_Q44, 500000 * (1 / 10 ^ 9), example_meta ''now'' (PStr ''HEA;HEP''))"
proof -
  have b: "map_sum id snd (multi_file_dicom example_decoder example_dicom2mat example_clock
                        [''odd3.dcm''] None None False) = Inr [''svs_press'']"
    using multi_file_dicom_single [where wrapper_from_file = example_decoder and fn = "''odd3.dcm''"
        and dicom2mat = example_dicom2mat and clock = example_clock and fname_out = None
        and tag = None and verbose = False,
        OF example_decoder_simps(5) example_convert_odd3 example_main_str(1)]
    by simp
  show ?thesis
    using b example_convert_odd3 [of "''now''" 2 500000 "''svs_press''" 1 2 3]
      example_convert_csi_odd3 [of "''now''" 500000 "''csi_fid''" 1 2 3]
    by (simp add: example_svs_or_CSI del: One_nat_def)
qed

theorem data_length_failure_witness:
  "convert_file example_dicom2mat ''now'' (example_img 1 1 1 2 500000 [] ''svs_press'' [1, 2, 3, 4, 5])
     = Inl ValueError
   \<and> (\<exists>e. multi_file_dicom example_decoder example_dicom2mat example_clock
              [''a.dcm'', ''odd5.dcm''] None None False = Inl e)
   \<and> convert_file example_dicom2mat ''now'' (example_img 2 3 1 1 500000 [] ''csi_fid'' [1, 2, 3, 4])
     = Inl ValueError
   \<and> (\<exists>e. multi_file_dicom example_decoder example_dicom2mat example_clock
              [''csi_short.dcm''] None None False = Inl e)"
proof -
  have 1: "(\<forall>now. convert_file example_dicom2mat now (example_img 1 1 1 2 500000 [] ''svs_press'' [1, 2, 3, 4, 5])
              = Inl ValueError)
       \<and> (\<exists>e. multi_file_dicom example_decoder example_dicom2mat example_clock
              [''a.dcm'', ''odd5.dcm''] None None False = Inl e)"
    by (rule data_length_failure [where fn = "''odd5.dcm''" and buf = "[1, 2, 3, 4, 5]" and ty = SVS
          and rows = 0 and cols = 0 and slices = 0 and pts = 0])
       (simp_all add: example_decoder_simps example_elem example_svs_or_CSI del: One_nat_def)
  have 2: "(\<forall>now. convert_file example_dicom2mat now (example_img 2 3 1 1 500000 [] ''csi_fid'' [1, 2, 3, 4])
              = Inl ValueError)
       \<and> (\<exists>e. multi_file_dicom example_decoder example_dicom2mat example_clock
              [''csi_short.dcm''] None None False = Inl e)"
    by (rule data_length_failure [where fn = "''csi_short.dcm''" and buf = "[1, 2, 3, 4]" and ty = CSI
          and rows = 2 and cols = 3 and slices = 1 and pts = 1])
       (simp_all add: example_decoder_simps example_elem example_svs_or_CSI example_csa_item_simps del: One_nat_def)
  from 1 2 show ?thesis by blast
qed

lemma example_protocol:
  "ProtocolName (dcm (example_img r c f p dw coil s buf)) = Some ''svs_protocol''"
  "SeriesDescription (dcm (example_img r c f p dw coil s buf)) = Some s"
  by (simp_all add: example_defs)

lemma example_batch_names_2:
  assumes "example_decoder f0 = Inr (example_img 1 1 1 2 dw0 [] s0 [x0, x1, x2, x3])"
      and "example_decoder f1 = Inr (example_img 1 1 1 2 dw0 [] s1 [y0, y1, y2, y3])"
  shows "map_sum id snd (multi_file_dicom example_decoder example_dicom2mat example_clock
                           [f0, f1] None None False) = Inr [s0]"
  using assms
  by (simp add: multi_file_dicom_def example_convert_svs4 example_main_str combine_test_def
        all_equal_def np_stack_last_def getitem_def del: One_nat_def)

text \<open>
  The claim as first stated fails: without an override the output name is the first file's
  SeriesDescription, not its protocol name, so two batches under one protocol name get
  different names; and the empty batch passes the combinability test but yields no output.
\<close>

theorem series_description_names_counterexample:
  "ProtocolName (dcm (example_img 1 1 1 2 500000 [] ''svs_press'' [1, 2, 3, 4])) = Some ''svs_protocol''
   \<and> example_decoder ''a.dcm'' = Inr (example_img 1 1 1 2 500000 [] ''svs_press'' [1, 2, 3, 4])
   \<and> map_sum id snd (multi_file_dicom example_decoder example_dicom2mat example_clock
                        [''a.dcm'', ''b.dcm''] None None False) = Inr [''svs_press'']
   \<and> ProtocolName (dcm (example_img 1 1 1 2 500000 [] ''other_series'' [1, 2, 3, 4])) = Some ''svs_protocol''
   \<and> example_decoder ''d.dcm'' = Inr (example_img 1 1 1 2 500000 [] ''other_series'' [1, 2, 3, 4])
   \<and> map_sum id snd (multi_file_dicom example_decoder example_dicom2mat example_clock
                        [''d.dcm'', ''b.dcm''] None None False) = Inr [''other_series'']
   \<and> combine_test [] [] []
   \<and> multi_file_dicom example_decoder example_dicom2mat example_clock [] None None False
       = Inl IndexError"
proof -
  have e: "combine_test [] [] []"
    by (simp add: combine_test_def all_equal_def)
  have "multi_file_dicom example_decoder example_dicom2mat example_clock [] None None False
       = Inl IndexError"
    by (simp add: multi_file_dicom_def e getitem_def)
  with e show ?thesis
    using example_batch_names_2 [OF example_decoder_simps(1) example_decoder_simps(2)]
      example_batch_names_2 [OF example_decoder_simps(4) example_decoder_simps(2)]
    by (simp add: example_protocol example_decoder_simps del: One_nat_def)
qed

section \<open>The non-combine path\<close>

lemma combine_test_Nil: "combine_test [] [] []"
  by (simp add: combine_test_def all_equal_def)

text \<open>
  Claim C3, as amended. For a batch whose per-file conversions all succeed and whose
  combinability test is false, exactly N output units are returned; unit \<open>i\<close> carries file
  \<open>i\<close>'s own spectrum, orientation, dwell time and metadata, with the standard field
  OriginalFile set to the one-element list of that file's name; its output name is the
  stem, an underscore and the index padded with zeros to three digits, where the stem is
  the override when it is given and not empty, otherwise the first file's
  SeriesDescription.
\<close>

theorem separate_path_output:
  assumes "length imgs = length files_in" and "length ds = length files_in"
      and "length os = length files_in" and "length ws = length files_in"
      and "length ms = length files_in"
      and "\<forall>i < length files_in. wrapper_from_file (files_in ! i) = Inr (imgs ! i)"
      and "\<forall>i < length files_in.
             convert_file dicom2mat (clock i) (imgs ! i) = Inr (ds ! i, os ! i, ws ! i, ms ! i)"
      and "main_str fname_out (imgs ! 0) = Inr stem"
      and "\<not> combine_test ds os ws"
  shows "\<exists>units names.
           multi_file_dicom wrapper_from_file dicom2mat clock files_in fname_out tag verbose
             = Inr (units, names)
         \<and> length units = length files_in \<and> length names = length files_in
         \<and> (\<forall>i < length files_in.
               units ! i = NIfTI_MRS (ds ! i) (Q44 (os ! i)) (ws ! i)
                             (set_standard_def ''OriginalFile'' (PList [files_in ! i]) (ms ! i))
             \<and> standard_defs (mrs_meta (units ! i))
                 = (standard_defs (ms ! i))(''OriginalFile'' \<mapsto> PList [files_in ! i])
             \<and> names ! i = stem @ ''_'' @ format_03 i
             \<and> (i < 1000 \<longrightarrow>
                   format_03 i = [digit_char (i div 100), digit_char (i div 10 mod 10),
                                  digit_char (i mod 10)]))
         \<and> (if truthy fname_out then fname_out = Some stem
              else SeriesDescription (dcm (imgs ! 0)) = Some stem)"
proof -
  have ne: "files_in \<noteq> []"
    using assms(2-4,9) combine_test_Nil by auto
  have loop: "convert_loop wrapper_from_file dicom2mat clock fname_out 0 files_in ([], [], [], [], [])
               = Inr ([] @ ds, [] @ os, [] @ ws, [] @ ms, stem)"
    using ne assms(1-8) by (intro convert_loop_Inr) simp_all
  let ?units = "map (\<lambda>i. NIfTI_MRS (ds ! i) (Q44 (os ! i)) (ws ! i)
                              (set_standard_def ''OriginalFile'' (PList [files_in ! i]) (ms ! i)))
                    [0..<length files_in]"
  let ?names = "map (\<lambda>i. stem @ ''_'' @ format_03 i) [0..<length files_in]"
  have res: "multi_file_dicom wrapper_from_file dicom2mat clock files_in fname_out tag verbose
               = Inr (?units, ?names)"
    using multi_file_dicom_separate [OF loop [simplified] assms(9) assms(2-5)] .
  have stem: "if truthy fname_out then fname_out = Some stem
              else SeriesDescription (dcm (imgs ! 0)) = Some stem"
    using assms(8) by (simp only: main_str_cases)
  have each: "\<forall>i < length files_in.
               ?units ! i = NIfTI_MRS (ds ! i) (Q44 (os ! i)) (ws ! i)
                             (set_standard_def ''OriginalFile'' (PList [files_in ! i]) (ms ! i))
             \<and> standard_defs (mrs_meta (?units ! i))
                 = (standard_defs (ms ! i))(''OriginalFile'' \<mapsto> PList [files_in ! i])
             \<and> ?names ! i = stem @ ''_'' @ format_03 i
             \<and> (i < 1000 \<longrightarrow>
                   format_03 i = [digit_char (i div 100), digit_char (i div 10 mod 10),
                                  digit_char (i mod 10)])"
    by (simp add: set_standard_def_simps format_03_three_digits)
  show ?thesis
    apply (rule exI [of _ ?units], rule exI [of _ ?names], intro conjI)
    subgoal by (rule res)
    subgoal by simp
    subgoal by simp
    subgoal by (rule each)
    subgoal by (rule stem)
    done
qed

lemma format_03_examples:
  "format_03 0 = ''000''" "format_03 (Suc 0) = ''001''" "format_03 (Suc (Suc 0)) = ''002''"
  by (simp_all add: format_03_def str_nat_1 digit_char_def numeral_2_eq_2)

lemma example_batch_names_3:
  assumes "example_decoder f0 = Inr (example_img 1 1 1 2 500000 [] s0 [x0, x1, x2, x3])"
      and "example_decoder f1 = Inr (example_img 1 1 1 2 500000 [] s1 [y0, y1, y2, y3])"
      and "example_decoder f2 = Inr (example_img 1 1 1 2 600000 [] s2 [z0, z1, z2, z3])"
  shows "map_sum id snd (multi_file_dicom example_decoder example_dicom2mat example_clock
                           [f0, f1, f2] None None False)
           = Inr [s0 @ ''_000'', s0 @ ''_001'', s0 @ ''_002'']"
  using assms
  by (simp add: multi_file_dicom_def example_convert_svs4 example_main_str combine_test_def
        all_equal_def format_03_examples upt_rec del: One_nat_def)

text \<open>
  The claim as first stated fails: the stem is the first file's SeriesDescription, not its
  protocol name.
\<close>

theorem series_description_stem_counterexample:
  "ProtocolName (dcm (example_img 1 1 1 2 500000 [] ''svs_press'' [1, 2, 3, 4])) = Some ''svs_protocol''
   \<and> example_decoder ''a.dcm'' = Inr (example_img 1 1 1 2 500000 [] ''svs_press'' [1, 2, 3, 4])
   \<and> map_sum id snd (multi_file_dicom example_decoder example_dicom2mat example_clock
                        [''a.dcm'', ''b.dcm'', ''c.dcm''] None None False)
       = Inr [''svs_press_000'', ''svs_press_001'', ''svs_press_002'']
   \<and> ProtocolName (dcm (example_img 1 1 1 2 500000 [] ''other_series'' [1, 2, 3, 4])) = Some ''svs_protocol''
   \<and> example_decoder ''d.dcm'' = Inr (example_img 1 1 1 2 500000 [] ''other_series'' [1, 2, 3, 4])
   \<and> map_sum id snd (multi_file_dicom example_decoder example_dicom2mat example_clock
                        [''d.dcm'', ''b.dcm'', ''c.dcm''] None None False)
       = Inr [''other_series_000'', ''other_series_001'', ''other_series_002'']"
  using example_batch_names_3 [OF example_decoder_simps(1) example_decoder_simps(2) example_decoder_simps(3)]
    example_batch_names_3 [OF example_decoder_simps(4) example_decoder_simps(2) example_decoder_simps(3)]
  by (simp add: example_protocol example_decoder_simps del: One_nat_def)

theorem separate_path_output_witness:
  "\<exists>units names.
     multi_file_dicom example_decoder example_dicom2mat example_clock
       [''a.dcm'', ''b.dcm'', ''c.dcm''] None None False = Inr (units, names)
     \<and> length units = 3
     \<and> names = [''svs_press_000'', ''svs_press_001'', ''svs_press_002'']
     \<and> standard_defs (mrs_meta (units ! 0)) ''OriginalFile'' = Some (PList [''a.dcm''])
     \<and> standard_defs (mrs_meta (units ! 1)) ''OriginalFile'' = Some (PList [''b.dcm''])
     \<and> standard_defs (mrs_meta (units ! 2)) ''OriginalFile'' = Some (PList [''c.dcm''])
     \<and> mrs_dwelltime (units ! 2) = 6 / 10000"
proof -
  let ?files = "[''a.dcm'', ''b.dcm'', ''c.dcm'']"
  let ?imgs = "[example_img 1 1 1 2 500000 [] ''svs_press'' [1, 2, 3, 4],
                example_img 1 1 1 2 500000 [] ''svs_press'' [5, 6, 7, 8],
                example_img 1 1 1 2 600000 [] ''svs_press'' [9, 10, 11, 12]]"
  let ?ds = "[\<lparr>shape = [1, 1, 1, 2], flat = [Complex 1 (- 2), Complex 3 (- 4)]\<rparr>,
              \<lparr>shape = [1, 1, 1, 2], flat = [Complex 5 (- 6), Complex 7 (- 8)]\<rparr>,
              \<lparr>shape = [1, 1, 1, 2], flat = [Complex 9 (- 10), Complex 11 (- 12)]\<rparr>]"
  let ?os = "[NIFTIOrient example_Q44, NIFTIOrient example_Q44, NIFTIOrient example_Q44]"
  let ?ws = "[real 500000 * (1 / 10 ^ 9), real 500000 * (1 / 10 ^ 9), real 600000 * (1 / 10 ^ 9)]"
  let ?ms = "[example_meta (example_clock 0) (PStr ''HEA;HEP''),
              example_meta (example_clock (Suc 0)) (PStr ''HEA;HEP''),
              example_meta (example_clock (Suc (Suc 0))) (PStr ''HEA;HEP'')]"
  have w: "\<forall>i < length ?files. example_decoder (?files ! i) = Inr (?imgs ! i)"
    by (auto simp: less_Suc_eq example_decoder_simps)
  have c: "\<forall>i < length ?files.
      convert_file example_dicom2mat (example_clock i) (?imgs ! i) = Inr (?ds ! i, ?os ! i, ?ws ! i, ?ms ! i)"
    by (auto simp: less_Suc_eq example_convert_svs4 simp del: One_nat_def)
  have s: "main_str None (?imgs ! 0) = Inr ''svs_press''"
    by (simp add: example_main_str)
  have t: "\<not> combine_test ?ds ?os ?ws"
    by (simp add: combine_test_def all_equal_def)
  have list3: "xs = [xs ! 0, xs ! 1, xs ! 2]" if "length xs = 3" for xs :: "string list"
    using that by (auto simp: numeral_3_eq_3 length_Suc_conv)
  have l: "length ?imgs = length ?files" "length ?ds = length ?files" "length ?os = length ?files"
    "length ?ws = length ?files" "length ?ms = length ?files"
    by simp_all
  from separate_path_output [of ?imgs ?files ?ds ?os ?ws ?ms example_decoder example_dicom2mat example_clock
      None "''svs_press''" None False, OF l w c s t]
  show ?thesis
  proof (elim exE conjE)
    fix units names
    assume r: "multi_file_dicom example_decoder example_dicom2mat example_clock ?files None None False
         = Inr (units, names)"
      and lu: "length units = length ?files" and ln: "length names = length ?files"
      and each: "\<forall>i < length ?files.
               units ! i = NIfTI_MRS (?ds ! i) (Q44 (?os ! i)) (?ws ! i)
                             (set_standard_def ''OriginalFile'' (PList [?files ! i]) (?ms ! i))
             \<and> standard_defs (mrs_meta (units ! i))
                 = (standard_defs (?ms ! i))(''OriginalFile'' \<mapsto> PList [?files ! i])
             \<and> names ! i = ''svs_press'' @ ''_'' @ format_03 i
             \<and> (i < 1000 \<longrightarrow>
                   format_03 i = [digit_char (i div 100), digit_char (i div 10 mod 10),
                                  digit_char (i mod 10)])"
    have e0: "names ! 0 = ''svs_press_000''"
      using each [rule_format, of 0] by (simp add: digit_char_def)
    have e1: "names ! 1 = ''svs_press_001''"
      using each [rule_format, of 1] by (simp add: digit_char_def)
    have e2: "names ! 2 = ''svs_press_002''"
      using each [rule_format, of 2] by (simp add: digit_char_def)
    have n: "names = [''svs_press_000'', ''svs_press_001'', ''svs_press_002'']"
      using list3 [of names] ln e0 e1 e2 by simp
    have m0: "standard_defs (mrs_meta (units ! 0)) ''OriginalFile'' = Some (PList [''a.dcm''])"
      using each [rule_format, of 0] by (simp add: set_standard_def_simps)
    have m1: "standard_defs (mrs_meta (units ! 1)) ''OriginalFile'' = Some (PList [''b.dcm''])"
      using each [rule_format, of 1] by (simp add: set_standard_def_simps)
    have m2: "standard_defs (mrs_meta (units ! 2)) ''OriginalFile'' = Some (PList [''c.dcm''])"
      using each [rule_format, of 2] by (simp add: set_standard_def_simps)
    have d2: "mrs_dwelltime (units ! 2) = 6 / 10000"
      using each [rule_format, of 2] by simp
    show ?thesis
      apply (rule exI [of _ units], rule exI [of _ names], intro conjI)
      subgoal by (rule r)
      subgoal using lu by simp
      subgoal by (rule n)
      subgoal by (rule m0)
      subgoal by (rule m1)
      subgoal by (rule m2)
      subgoal by (rule d2)
      done
  qed
qed

section \<open>A batch of one file\<close>

text \<open>
  Claim C10. A batch of one file whose conversion succeeds always passes the combinability
  test; exactly one output unit is returned, named by the bare stem; its data array has
  the file's spectrum with one more trailing axis of length 1 (for a single-voxel file
  with a buffer of \<open>2 * N\<close> numbers the shape is \<open>(1, 1, 1, N, 1)\<close>), and the
  OriginalFile field of its metadata is the one-element list of the file's name.
\<close>

theorem single_file_batch:
  assumes "wrapper_from_file fn = Inr img"
      and "convert_file dicom2mat (clock 0) img = Inr (d, ori, dt, m)"
      and "main_str fname_out img = Inr stem"
  shows "combine_test [d] [ori] [dt]
       \<and> (\<exists>combined meta.
             multi_file_dicom wrapper_from_file dicom2mat clock [fn] fname_out tag verbose
               = Inr ([NIfTI_MRS combined (Q44 ori) dt meta], [stem])
           \<and> shape combined = shape d @ [1]
           \<and> (\<forall>idx. valid_index (shape d) idx \<longrightarrow> nd_at combined (idx @ [0]) = nd_at d idx)
           \<and> standard_defs meta = (standard_defs m)(''OriginalFile'' \<mapsto> PList [fn])
           \<and> (\<forall>buf N. svs_or_CSI img = Inr SVS \<longrightarrow> elem_7fe1_1010 (dcm img) = Some buf \<longrightarrow>
                 length buf = 2 * N \<longrightarrow> shape combined = [1, 1, 1, N, 1]))"
proof
  show "combine_test [d] [ori] [dt]"
    by (simp add: combine_test_def all_equal_def)
next
  let ?combined = "\<lparr>shape = shape d @ [1],
                     flat = concat (map (\<lambda>p. [flat d ! p]) [0..<prod_list (shape d)])\<rparr>"
  let ?meta = "(if truthy tag then set_dim_info 0 (the tag) else id)
                 (set_standard_def ''OriginalFile'' (PList [fn]) m)"
  have res: "multi_file_dicom wrapper_from_file dicom2mat clock [fn] fname_out tag verbose
               = Inr ([NIfTI_MRS ?combined (Q44 ori) dt ?meta], [stem])"
    using assms by (rule multi_file_dicom_single)
  have st: "np_stack_last [d] = Inr ?combined"
    by (simp add: np_stack_last_def)
  have at: "\<forall>idx. valid_index (shape d) idx \<longrightarrow> nd_at ?combined (idx @ [0]) = nd_at d idx"
    using np_stack_last_at [of "[d]" "shape d"] st by auto
  have m1: "standard_defs ?meta = (standard_defs m)(''OriginalFile'' \<mapsto> PList [fn])"
    by (simp add: set_standard_def_simps set_dim_info_simps)
  have svs: "shape ?combined = [1, 1, 1, N, 1]"
    if "svs_or_CSI img = Inr SVS" "elem_7fe1_1010 (dcm img) = Some buf" "length buf = 2 * N"
    for buf N
  proof -
    from convert_file_SVS_data [OF that(1) assms(2) that(2)] obtain c where
      c: "decode_complex buf = Inr c" and r: "np_reshape c ([1, 1, 1] @ shape c) = Inr d"
      by blast
    from c decode_complex_even [OF that(3)] have "shape c = [N]" by auto
    with r have "shape d = [1, 1, 1, N]"
      by (auto simp: np_reshape_def split: if_splits)
    then show ?thesis by simp
  qed
  show "\<exists>combined meta.
             multi_file_dicom wrapper_from_file dicom2mat clock [fn] fname_out tag verbose
               = Inr ([NIfTI_MRS combined (Q44 ori) dt meta], [stem])
           \<and> shape combined = shape d @ [1]
           \<and> (\<forall>idx. valid_index (shape d) idx \<longrightarrow> nd_at combined (idx @ [0]) = nd_at d idx)
           \<and> standard_defs meta = (standard_defs m)(''OriginalFile'' \<mapsto> PList [fn])
           \<and> (\<forall>buf N. svs_or_CSI img = Inr SVS \<longrightarrow> elem_7fe1_1010 (dcm img) = Some buf \<longrightarrow>
                 length buf = 2 * N \<longrightarrow> shape combined = [1, 1, 1, N, 1])"
    apply (rule exI [of _ ?combined], rule exI [of _ ?meta], intro conjI)
    subgoal by (rule res)
    subgoal by simp
    subgoal by (rule at)
    subgoal by (rule m1)
    subgoal using svs by blast
    done
qed

theorem single_file_batch_witness:
  "\<exists>combined meta.
     multi_file_dicom example_decoder example_dicom2mat example_clock [''a.dcm''] None None False
       = Inr ([NIfTI_MRS combined example_Q44 (5 / 10000) meta], [''svs_press''])
     \<and> shape combined = [1, 1, 1, 2, 1]
     \<and> nd_at combined [0, 0, 0, 1, 0] = Complex 3 (- 4)
     \<and> standard_defs meta ''OriginalFile'' = Some (PList [''a.dcm''])"
proof -
  let ?img = "example_img 1 1 1 2 500000 [] ''svs_press'' [1, 2, 3, 4]"
  let ?d = "\<lparr>shape = [1, 1, 1, 2], flat = [Complex 1 (- 2), Complex 3 (- 4)]\<rparr>"
  from single_file_batch [where wrapper_from_file = example_decoder and fn = "''a.dcm''"
      and dicom2mat = example_dicom2mat and clock = example_clock and fname_out = None
      and tag = None and verbose = False,
      OF example_decoder_simps(1) example_convert_svs4 example_main_str(1)]
  obtain combined meta where
    r: "multi_file_dicom example_decoder example_dicom2mat example_clock [''a.dcm''] None None False
         = Inr ([NIfTI_MRS combined (Q44 (NIFTIOrient example_Q44)) (real 500000 * (1 / 10 ^ 9)) meta],
                [''svs_press''])"
    and sh: "shape combined = shape ?d @ [1]"
    and at: "\<forall>idx. valid_index (shape ?d) idx \<longrightarrow> nd_at combined (idx @ [0]) = nd_at ?d idx"
    and m: "standard_defs meta
             = (standard_defs (example_meta (example_clock 0) (PStr ''HEA;HEP'')))
                 (''OriginalFile'' \<mapsto> PList [''a.dcm''])"
    by auto
  have a: "nd_at combined [0, 0, 0, 1, 0] = Complex 3 (- 4)"
    using at [rule_format, of "[0, 0, 0, 1]"] by (simp add: valid_index_def nd_at_def)
  show ?thesis
    apply (rule exI [of _ combined], rule exI [of _ meta], intro conjI)
    subgoal using r by simp
    subgoal using sh by simp
    subgoal by (rule a)
    subgoal by (simp add: m)
    done
qed

section \<open>The receive-coil field\<close>

lemma succeeds_iff: "succeeds r \<longleftrightarrow> (\<exists>x. r = Inr x)"
  by (cases r) (simp_all add: succeeds_def)

lemma extractDicomMetadata_returns:
  assumes "metadata_inputs_present img"
      and "csa_items img ''ReceivingCoil'' = Inr rc"
      and "rc = [] \<longrightarrow> succeeds (csa_item img ''ImaCoilString'' 0)"
  shows "\<exists>obj. extractDicomMetadata now img = Inr obj"
proof -
  from assms(1) obtain freq nuc sn fa te tr n where
    t: "csa_item img ''ImagingFrequency'' 0 = Inr freq" "csa_item img ''ImagedNucleus'' 0 = Inr nuc"
       "csa_item img ''SequenceName'' 0 = Inr sn" "csa_item img ''FlipAngle'' 0 = Inr fa"
       "bindE (csa_item img ''EchoTime'' 0) to_real = Inr te"
       "bindE (csa_item img ''RepetitionTime'' 0) to_real = Inr tr"
       "csa_n_items img ''InversionTime'' = Inr n"
    and ti: "n > 0 \<longrightarrow> succeeds (csa_item img ''InversionTime'' 0)"
    by (auto simp: metadata_inputs_present_def succeeds_iff bindE_eq_Inr split: if_splits)
  from t(5,6) obtain tev trv where
    v: "csa_item img ''EchoTime'' 0 = Inr tev" "to_real tev = Inr te"
       "csa_item img ''RepetitionTime'' 0 = Inr trv" "to_real trv = Inr tr"
    by (auto simp: bindE_eq_Inr)
  from assms(1) obtain a1 a2 a3 a4 a5 a6 a7 a8 a9 a10 a11 a12 where
    a: "Manufacturer (dcm img) = Some a1" "ManufacturerModelName (dcm img) = Some a2"
       "DeviceSerialNumber (dcm img) = Some a3" "SoftwareVersions (dcm img) = Some a4"
       "InstitutionName (dcm img) = Some a5" "InstitutionAddress (dcm img) = Some a6"
       "ProtocolName (dcm img) = Some a7" "PatientPosition (dcm img) = Some a8"
       "PatientName_family_name (dcm img) = Some a9" "PatientWeight (dcm img) = Some a10"
       "PatientBirthDate (dcm img) = Some a11" "PatientSex (dcm img) = Some a12"
    by (auto simp: metadata_inputs_present_def)
  have coil: "rc = [] \<Longrightarrow> \<exists>v. csa_item img ''ImaCoilString'' 0 = Inr v"
    using assms(3) by (simp add: succeeds_iff)
  have inv: "n > 0 \<Longrightarrow> \<exists>v. csa_item img ''InversionTime'' 0 = Inr v"
    using ti by (simp add: succeeds_iff)
  show ?thesis
  proof (cases "rc = []")
    case True
    with coil obtain v where "csa_item img ''ImaCoilString'' 0 = Inr v" by blast
    with True assms(2) t v a inv show ?thesis
      by (cases "n > 0") (auto simp: extractDicomMetadata_def attr_def Let_def)
  next
    case False
    with assms(2) t v a inv show ?thesis
      by (cases "n > 0") (auto simp: extractDicomMetadata_def attr_def Let_def getitem_def)
  qed
qed

lemma receive_coil_lookup:
  assumes "csa_items img ''ReceivingCoil'' = Inr rc"
      and "extractDicomMetadata now img = Inr obj"
  shows "(rc = [] \<longrightarrow>
            (\<exists>v. csa_item img ''ImaCoilString'' 0 = Inr v
                 \<and> user_defs obj ''ReceiveCoilName'' = Some (v, ''Rx coil name.'')))
       \<and> (rc \<noteq> [] \<longrightarrow> user_defs obj ''ReceiveCoilName'' = Some (rc ! 0, ''Rx coil name.''))"
  using assms
  by (auto simp: extractDicomMetadata_def bindE_eq_Inr Let_def getitem_def
        set_standard_def_simps set_user_def_simps split: if_splits)

text \<open>
  Claim C9. Let the primary tag \<^verbatim>\<open>ReceivingCoil\<close> be present with item list \<open>rc\<close>. The
  metadata extraction returns whenever its other inputs are present and, for empty \<open>rc\<close>,
  the secondary tag \<^verbatim>\<open>ImaCoilString\<close> has a first item. Whenever it returns a header
  extension: if \<open>rc\<close> is empty, the user field \<^verbatim>\<open>ReceiveCoilName\<close> holds the first item of
  the secondary tag; if it is not empty, the field holds the primary tag's first item. In
  both cases the field carries the documentation string \<^verbatim>\<open>Rx coil name.\<close>
\<close>

theorem receive_coil_field:
  assumes "csa_items img ''ReceivingCoil'' = Inr rc"
  shows "(metadata_inputs_present img \<longrightarrow>
            (rc = [] \<longrightarrow> succeeds (csa_item img ''ImaCoilString'' 0)) \<longrightarrow>
            succeeds (extractDicomMetadata now img))
       \<and> (\<forall>obj. extractDicomMetadata now img = Inr obj \<longrightarrow>
            (rc = [] \<longrightarrow>
               (\<exists>v. csa_item img ''ImaCoilString'' 0 = Inr v
                    \<and> user_defs obj ''ReceiveCoilName'' = Some (v, ''Rx coil name.'')))
          \<and> (rc \<noteq> [] \<longrightarrow> user_defs obj ''ReceiveCoilName'' = Some (rc ! 0, ''Rx coil name.'')))"
proof (intro conjI impI allI)
  assume "metadata_inputs_present img" and "rc = [] \<longrightarrow> succeeds (csa_item img ''ImaCoilString'' 0)"
  with assms show "succeeds (extractDicomMetadata now img)"
    using extractDicomMetadata_returns [of img rc now] by (simp add: succeeds_iff)
next
  fix obj
  assume e: "extractDicomMetadata now img = Inr obj"
  show "\<exists>v. csa_item img ''ImaCoilString'' 0 = Inr v
           \<and> user_defs obj ''ReceiveCoilName'' = Some (v, ''Rx coil name.'')" if "rc = []"
    using receive_coil_lookup [OF assms e] that by blast
  show "user_defs obj ''ReceiveCoilName'' = Some (rc ! 0, ''Rx coil name.'')" if "rc \<noteq> []"
    using receive_coil_lookup [OF assms e] that by blast
qed

lemma example_coil_items:
  "csa_items (example_img r c f p dw coil s buf) ''ReceivingCoil'' = Inr coil"
  "csa_item (example_img r c f p dw coil s buf) ''ImaCoilString'' 0 = Inr (PStr ''HEA;HEP'')"
  by (simp_all add: example_defs lookup_defs)

lemma example_metadata_inputs_present:
  "metadata_inputs_present (example_img r c f p dw coil s buf)"
  by (simp add: metadata_inputs_present_def succeeds_def example_defs lookup_defs)

theorem receive_coil_field_witness:
  "metadata_inputs_present (example_img 1 1 1 2 500000 [] ''svs_press'' [1, 2, 3, 4])
   \<and> succeeds (extractDicomMetadata ''now'' (example_img 1 1 1 2 500000 [] ''svs_press'' [1, 2, 3, 4]))
   \<and> (\<exists>obj. extractDicomMetadata ''now'' (example_img 1 1 1 2 500000 [] ''svs_press'' [1, 2, 3, 4]) = Inr obj
        \<and> user_defs obj ''ReceiveCoilName'' = Some (PStr ''HEA;HEP'', ''Rx coil name.''))
   \<and> (\<exists>obj. extractDicomMetadata ''now''
               (example_img 1 1 1 2 500000 [PStr ''Body'', PStr ''Spine''] ''svs_press'' [1, 2, 3, 4]) = Inr obj
        \<and> user_defs obj ''ReceiveCoilName'' = Some (PStr ''Body'', ''Rx coil name.''))"
proof (intro conjI)
  let ?img = "example_img 1 1 1 2 500000 [] ''svs_press'' [1, 2, 3, 4]"
  show p: "metadata_inputs_present ?img"
    by (rule example_metadata_inputs_present)
  show "succeeds (extractDicomMetadata ''now'' ?img)"
    using receive_coil_field [OF example_coil_items(1), THEN conjunct1, rule_format, OF p, of "''now''"]
    by (simp add: example_coil_items(2) succeeds_def)
  have e: "extractDicomMetadata ''now'' ?img = Inr (example_meta ''now'' (PStr ''HEA;HEP''))"
    using example_extract [of "''now''" 1 1 1 2 500000 "[]" "''svs_press''" "[1, 2, 3, 4]"]
    by (simp only: simp_thms if_True)
  from receive_coil_field [OF example_coil_items(1), THEN conjunct2, rule_format, OF e]
  have "user_defs (example_meta ''now'' (PStr ''HEA;HEP'')) ''ReceiveCoilName''
          = Some (PStr ''HEA;HEP'', ''Rx coil name.'')"
    by (simp add: example_coil_items(2))
  with e show "\<exists>obj. extractDicomMetadata ''now'' ?img = Inr obj
        \<and> user_defs obj ''ReceiveCoilName'' = Some (PStr ''HEA;HEP'', ''Rx coil name.'')"
    by blast
next
  let ?img = "example_img 1 1 1 2 500000 [PStr ''Body'', PStr ''Spine''] ''svs_press'' [1, 2, 3, 4]"
  have e: "extractDicomMetadata ''now'' ?img = Inr (example_meta ''now'' (PStr ''Body''))"
    using example_extract [of "''now''" 1 1 1 2 500000 "[PStr ''Body'', PStr ''Spine'']" "''svs_press''" "[1, 2, 3, 4]"]
    by simp
  from receive_coil_field [OF example_coil_items(1), THEN conjunct2, rule_format, OF e]
  have "user_defs (example_meta ''now'' (PStr ''Body'')) ''ReceiveCoilName''
          = Some (PStr ''Body'', ''Rx coil name.'')"
    by simp
  with e show "\<exists>obj. extractDicomMetadata ''now'' ?img = Inr obj
        \<and> user_defs obj ''ReceiveCoilName'' = Some (PStr ''Body'', ''Rx coil name.'')"
    by blast
qed

section \<open>Geometry errors of the orientation calculation\<close>

lemma list3_exhaust:
  assumes "length xs = 3"
  obtains a b c where "xs = [a, b, c]"
  using assms by (auto simp: numeral_3_eq_3 length_Suc_conv)

lemma nifti_dicom2mat_GeometryError_iff:
  assumes "map length orient = [3, 3]" and "length pos = 3" and "length xyz = 3"
  shows "nifti_dicom2mat tol orient pos xyz = Inl GeometryError
         \<longleftrightarrow> (\<exists>x \<in> set xyz. x \<le> 0) \<or> near_zero tol (cross3 (orient ! 0) (orient ! 1))"
  using assms by (simp add: nifti_dicom2mat_def Let_def)

lemma nifti_dicom2mat_Inr_iff:
  assumes "map length orient = [3, 3]" and "length pos = 3" and "length xyz = 3"
  shows "(\<exists>Q. nifti_dicom2mat tol orient pos xyz = Inr Q)
         \<longleftrightarrow> \<not> ((\<exists>x \<in> set xyz. x \<le> 0) \<or> near_zero tol (cross3 (orient ! 0) (orient ! 1)))"
  using assms by (simp add: nifti_dicom2mat_def Let_def)

lemma sum_squares_pos: "0 \<le> tol \<Longrightarrow> \<not> a * a + (b * b + c * c) \<le> tol \<Longrightarrow> a * a + (b * b + c * c) \<noteq> (0::real)"
  by auto

lemma nifti_dicom2mat_valid:
  assumes "nifti_dicom2mat tol orient pos xyz = Inr Q" and "0 \<le> tol"
  shows "map length orient = [3, 3] \<and> length pos = 3 \<and> length xyz = 3
       \<and> (\<forall>x \<in> set xyz. 0 < x) \<and> \<not> near_zero tol (cross3 (orient ! 0) (orient ! 1))
       \<and> valid_orientation (negate_first_two_rows Q)"
proof -
  have sh: "map length orient = [3, 3]" "length pos = 3" "length xyz = 3"
    using assms(1) by (auto simp: nifti_dicom2mat_def split: if_splits)
  have pos: "\<forall>x \<in> set xyz. 0 < x"
    using assms(1) sh by (auto simp: nifti_dicom2mat_def Let_def not_le split: if_splits)
  have nz: "\<not> near_zero tol (cross3 (orient ! 0) (orient ! 1))"
    using assms(1) sh by (auto simp: nifti_dicom2mat_def Let_def split: if_splits)
  obtain r c where o: "orient = [r, c]" "length r = 3" "length c = 3"
    using sh(1) by (cases orient; cases "tl orient") auto
  obtain r0 r1 r2 where r: "r = [r0, r1, r2]" using o(2) by (rule list3_exhaust)
  obtain c0 c1 c2 where c: "c = [c0, c1, c2]" using o(3) by (rule list3_exhaust)
  obtain p0 p1 p2 where p: "pos = [p0, p1, p2]" using sh(2) by (rule list3_exhaust)
  obtain x0 x1 x2 where x: "xyz = [x0, x1, x2]" using sh(3) by (rule list3_exhaust)
  let ?n0 = "r1 * c2 - r2 * c1" and ?n1 = "r2 * c0 - r0 * c2" and ?n2 = "r0 * c1 - r1 * c0"
  have Q: "Q = [[r0 * x0, c0 * x1, ?n0 * x2, p0], [r1 * x0, c1 * x1, ?n1 * x2, p1],
                [r2 * x0, c2 * x1, ?n2 * x2, p2], [0, 0, 0, 1]]"
    using assms(1) by (simp add: nifti_dicom2mat_def Let_def o r c p x cross3_def split: if_splits)
  have xs: "0 < x0" "0 < x1" "0 < x2" using pos x by auto
  have n: "?n0 * ?n0 + (?n1 * ?n1 + ?n2 * ?n2) \<noteq> 0"
    using nz assms(2) by (intro sum_squares_pos [of tol]) (simp_all add: near_zero_def cross3_def o r c)
  have det: "det3 (negate_first_two_rows Q) = x0 * x1 * x2 * (?n0 * ?n0 + (?n1 * ?n1 + ?n2 * ?n2))"
    by (simp add: Q det3_def negate_first_two_rows_def) algebra
  have "det3 (negate_first_two_rows Q) \<noteq> 0"
    unfolding det using xs n by simp
  then have "valid_orientation (negate_first_two_rows Q)"
    by (simp add: valid_orientation_def Q negate_first_two_rows_def)
  with sh pos nz show ?thesis by blast
qed


lemma mapE_length: "mapE f xs = Inr ys \<Longrightarrow> length ys = length xs"
  by (induction xs arbitrary: ys) (auto simp: bindE_eq_Inr)

lemma reshape_2_3_shape: "reshape_2_3 its = Inr orient \<Longrightarrow> map length orient = [3, 3]"
  by (auto simp: reshape_2_3_def bindE_eq_Inr split: if_splits)

lemma svs_geometry_shape:
  assumes "svs_geometry img = Inr (orient, pos, xyz)"
  shows "map length orient = [3, 3] \<and> length xyz = 3"
proof -
  from assms obtain iop x0 x1 x2 where
    "reshape_2_3 iop = Inr orient" and "mapE to_real [x0, x1, x2] = Inr xyz"
    unfolding svs_geometry_def bindE_eq_Inr by auto
  then show ?thesis
    using reshape_2_3_shape mapE_length by fastforce
qed

lemma csi_geometry_shape:
  assumes "csi_geometry img = Inr (orient, pos, xyz)"
  shows "map length orient = [3, 3] \<and> length xyz = 3"
proof -
  from assms obtain iop x0 x1 x2 where
    "reshape_2_3 iop = Inr orient" and "mapE to_real [x0, x1, x2] = Inr xyz"
    unfolding csi_geometry_def bindE_eq_Inr by auto
  then show ?thesis
    using reshape_2_3_shape mapE_length by fastforce
qed

lemma process_siemens_svs_Inr:
  assumes "process_siemens_svs dicom2mat now img = Inr (d, ori, dt, m)"
  shows "\<exists>orient pos xyz Q. svs_geometry img = Inr (orient, pos, xyz)
           \<and> dicom2mat orient pos xyz = Inr Q \<and> Q44 ori = negate_first_two_rows Q"
  using assms by (auto simp: process_siemens_svs_def bindE_eq_Inr Let_def)

lemma process_siemens_csi_Inr:
  assumes "process_siemens_csi dicom2mat now img = Inr (d, ori, dt, m)"
  shows "\<exists>orient pos xyz Q. csi_geometry img = Inr (orient, pos, xyz)
           \<and> dicom2mat orient pos xyz = Inr Q \<and> Q44 ori = negate_first_two_rows Q"
  using assms by (auto simp: process_siemens_csi_def bindE_eq_Inr Let_def)

lemma process_siemens_svs_dicom2mat_fails:
  assumes "elem_7fe1_1010 (dcm img) = Some buf" and "decode_complex buf = Inr c"
      and "svs_geometry img = Inr (orient, pos, xyz)" and "dicom2mat orient pos xyz = Inl e"
  shows "process_siemens_svs dicom2mat now img = Inl e"
  using assms by (simp add: process_siemens_svs_def frombuffer_7fe1_1010_def)

lemma process_siemens_csi_dicom2mat_fails:
  assumes "elem_7fe1_1010 (dcm img) = Some buf" and "decode_complex buf = Inr c"
      and "bindE (csa_item img ''Rows'' 0) to_count = Inr rows"
      and "bindE (csa_item img ''Columns'' 0) to_count = Inr cols"
      and "bindE (csa_item img ''NumberOfFrames'' 0) to_count = Inr slices"
      and "bindE (csa_item img ''DataPointColumns'' 0) to_count = Inr pts"
      and "length (flat c) = slices * rows * cols * pts"
      and "csi_geometry img = Inr (orient, pos, xyz)" and "dicom2mat orient pos xyz = Inl e"
  shows "process_siemens_csi dicom2mat now img = Inl e"
proof -
  have r: "np_reshape c [slices, rows, cols, pts] = Inr \<lparr>shape = [slices, rows, cols, pts], flat = flat c\<rparr>"
    using assms(7) by (simp add: np_reshape_def)
  obtain b where b: "np_moveaxis_012_210 \<lparr>shape = [slices, rows, cols, pts], flat = flat c\<rparr> = Inr b"
    using moveaxis_shape [of "\<lparr>shape = [slices, rows, cols, pts], flat = flat c\<rparr>" slices rows cols pts]
    by auto
  show ?thesis
    using assms(1-6,8,9) r b by (simp add: process_siemens_csi_def frombuffer_7fe1_1010_def)
qed

text \<open>
  Claim C8, against the orientation calculation as the specification describes it, with any
  tolerance \<open>tol\<close> that is not negative. On a 2 by 3 direction matrix, a position and a
  voxel size of three components each, the calculation fails with GeometryError exactly when
  some voxel-size component is not positive or the cross product of the two direction
  vectors is near zero, and returns a matrix exactly when neither holds; the matrix, with
  its first two rows negated as the extraction does, is a valid orientation matrix (bottom
  row \<open>[0, 0, 0, 1]\<close>, non-zero determinant). Both extraction paths return only with
  positive voxel sizes, a cross product that is not near zero and a valid matrix, and both
  fail with GeometryError when the geometry read from the tags violates a condition.
\<close>

theorem orientation_geometry_error:
  assumes "0 \<le> tol"
  shows "(\<forall>orient pos xyz. map length orient = [3, 3] \<longrightarrow> length pos = 3 \<longrightarrow> length xyz = 3 \<longrightarrow>
            (nifti_dicom2mat tol orient pos xyz = Inl GeometryError
               \<longleftrightarrow> (\<exists>x \<in> set xyz. x \<le> 0) \<or> near_zero tol (cross3 (orient ! 0) (orient ! 1)))
          \<and> ((\<exists>Q. nifti_dicom2mat tol orient pos xyz = Inr Q)
               \<longleftrightarrow> \<not> ((\<exists>x \<in> set xyz. x \<le> 0) \<or> near_zero tol (cross3 (orient ! 0) (orient ! 1))))
          \<and> (\<forall>Q. nifti_dicom2mat tol orient pos xyz = Inr Q \<longrightarrow>
                 valid_orientation (negate_first_two_rows Q)))
       \<and> (\<forall>now img d ori dt m.
            process_siemens_svs (nifti_dicom2mat tol) now img = Inr (d, ori, dt, m) \<longrightarrow>
              valid_orientation (Q44 ori)
            \<and> (\<exists>orient pos xyz. svs_geometry img = Inr (orient, pos, xyz)
                 \<and> (\<forall>x \<in> set xyz. 0 < x) \<and> \<not> near_zero tol (cross3 (orient ! 0) (orient ! 1))))
       \<and> (\<forall>now img d ori dt m.
            process_siemens_csi (nifti_dicom2mat tol) now img = Inr (d, ori, dt, m) \<longrightarrow>
              valid_orientation (Q44 ori)
            \<and> (\<exists>orient pos xyz. csi_geometry img = Inr (orient, pos, xyz)
                 \<and> (\<forall>x \<in> set xyz. 0 < x) \<and> \<not> near_zero tol (cross3 (orient ! 0) (orient ! 1))))
       \<and> (\<forall>now img buf c orient pos xyz.
            elem_7fe1_1010 (dcm img) = Some buf \<longrightarrow> decode_complex buf = Inr c \<longrightarrow>
            svs_geometry img = Inr (orient, pos, xyz) \<longrightarrow> length pos = 3 \<longrightarrow>
            (\<exists>x \<in> set xyz. x \<le> 0) \<or> near_zero tol (cross3 (orient ! 0) (orient ! 1)) \<longrightarrow>
              process_siemens_svs (nifti_dicom2mat tol) now img = Inl GeometryError)
       \<and> (\<forall>now img buf c rows cols slices pts orient pos xyz.
            elem_7fe1_1010 (dcm img) = Some buf \<longrightarrow> decode_complex buf = Inr c \<longrightarrow>
            bindE (csa_item img ''Rows'' 0) to_count = Inr rows \<longrightarrow>
            bindE (csa_item img ''Columns'' 0) to_count = Inr cols \<longrightarrow>
            bindE (csa_item img ''NumberOfFrames'' 0) to_count = Inr slices \<longrightarrow>
            bindE (csa_item img ''DataPointColumns'' 0) to_count = Inr pts \<longrightarrow>
            length (flat c) = slices * rows * cols * pts \<longrightarrow>
            csi_geometry img = Inr (orient, pos, xyz) \<longrightarrow> length pos = 3 \<longrightarrow>
            (\<exists>x \<in> set xyz. x \<le> 0) \<or> near_zero tol (cross3 (orient ! 0) (orient ! 1)) \<longrightarrow>
              process_siemens_csi (nifti_dicom2mat tol) now img = Inl GeometryError)"
proof (intro conjI allI impI)
  fix orient :: "real list list" and pos xyz :: "real list"
  assume sh: "map length orient = [3, 3]" "length pos = 3" "length xyz = (3::nat)"
  show "nifti_dicom2mat tol orient pos xyz = Inl GeometryError
          \<longleftrightarrow> (\<exists>x \<in> set xyz. x \<le> 0) \<or> near_zero tol (cross3 (orient ! 0) (orient ! 1))"
    using sh by (rule nifti_dicom2mat_GeometryError_iff)
  show "(\<exists>Q. nifti_dicom2mat tol orient pos xyz = Inr Q)
          \<longleftrightarrow> \<not> ((\<exists>x \<in> set xyz. x \<le> 0) \<or> near_zero tol (cross3 (orient ! 0) (orient ! 1)))"
    using sh by (rule nifti_dicom2mat_Inr_iff)
  show "valid_orientation (negate_first_two_rows Q)" if "nifti_dicom2mat tol orient pos xyz = Inr Q" for Q
    using nifti_dicom2mat_valid [OF that assms] by blast
next
  fix now img d ori dt m
  assume p: "process_siemens_svs (nifti_dicom2mat tol) now img = Inr (d, ori, dt, m)"
  from process_siemens_svs_Inr [OF p] obtain orient pos xyz Q where
    g: "svs_geometry img = Inr (orient, pos, xyz)" and
    q: "nifti_dicom2mat tol orient pos xyz = Inr Q" and o: "Q44 ori = negate_first_two_rows Q"
    by blast
  from nifti_dicom2mat_valid [OF q assms] o show "valid_orientation (Q44 ori)" by simp
  from nifti_dicom2mat_valid [OF q assms] g
  show "\<exists>orient pos xyz. svs_geometry img = Inr (orient, pos, xyz)
          \<and> (\<forall>x \<in> set xyz. 0 < x) \<and> \<not> near_zero tol (cross3 (orient ! 0) (orient ! 1))"
    by blast
next
  fix now img d ori dt m
  assume p: "process_siemens_csi (nifti_dicom2mat tol) now img = Inr (d, ori, dt, m)"
  from process_siemens_csi_Inr [OF p] obtain orient pos xyz Q where
    g: "csi_geometry img = Inr (orient, pos, xyz)" and
    q: "nifti_dicom2mat tol orient pos xyz = Inr Q" and o: "Q44 ori = negate_first_two_rows Q"
    by blast
  from nifti_dicom2mat_valid [OF q assms] o show "valid_orientation (Q44 ori)" by simp
  from nifti_dicom2mat_valid [OF q assms] g
  show "\<exists>orient pos xyz. csi_geometry img = Inr (orient, pos, xyz)
          \<and> (\<forall>x \<in> set xyz. 0 < x) \<and> \<not> near_zero tol (cross3 (orient ! 0) (orient ! 1))"
    by blast
next
  fix now img buf c orient pos xyz
  assume a: "elem_7fe1_1010 (dcm img) = Some buf" "decode_complex buf = Inr c"
    "svs_geometry img = Inr (orient, pos, xyz)" "length pos = 3"
    "(\<exists>x \<in> set xyz. x \<le> 0) \<or> near_zero tol (cross3 (orient ! 0) (orient ! 1))"
  have "nifti_dicom2mat tol orient pos xyz = Inl GeometryError"
    using svs_geometry_shape [OF a(3)] a(4,5) by (simp add: nifti_dicom2mat_GeometryError_iff)
  with a(1-3) show "process_siemens_svs (nifti_dicom2mat tol) now img = Inl GeometryError"
    by (rule process_siemens_svs_dicom2mat_fails)
next
  fix now img buf c rows cols slices pts orient pos xyz
  assume a: "elem_7fe1_1010 (dcm img) = Some buf" "decode_complex buf = Inr c"
    "bindE (csa_item img ''Rows'' 0) to_count = Inr rows"
    "bindE (csa_item img ''Columns'' 0) to_count = Inr cols"
    "bindE (csa_item img ''NumberOfFrames'' 0) to_count = Inr slices"
    "bindE (csa_item img ''DataPointColumns'' 0) to_count = Inr pts"
    "length (flat c) = slices * rows * cols * pts"
    "csi_geometry img = Inr (orient, pos, xyz)" "length pos = 3"
    "(\<exists>x \<in> set xyz. x \<le> 0) \<or> near_zero tol (cross3 (orient ! 0) (orient ! 1))"
  have "nifti_dicom2mat tol orient pos xyz = Inl GeometryError"
    using csi_geometry_shape [OF a(8)] a(9,10) by (simp add: nifti_dicom2mat_GeometryError_iff)
  with a(1-8) show "process_siemens_csi (nifti_dicom2mat tol) now img = Inl GeometryError"
    by (rule process_siemens_csi_dicom2mat_fails)
qed

lemma example_svs_geometry:
  "svs_geometry (example_img r c f p dw coil s buf) = Inr ([[1, 0, 0], [0, 1, 0]], [1, 2, 3], [20, 20, 20])"
  "svs_geometry example_img_flat = Inr ([[1, 0, 0], [0, 1, 0]], [1, 2, 3], [20, 20, 0])"
  by (simp_all add: svs_geometry_def reshape_2_3_def example_img_flat_def example_defs lookup_defs)

lemma example_decode4:
  "decode_complex [x0, x1, x2, x3] = Inr \<lparr>shape = [2], flat = [Complex x0 (- x1), Complex x2 (- x3)]\<rparr>"
  by (simp add: decode_complex_def np_sub_1d_def complex_eq_iff)

lemma example_process_svs_modelled:
  "process_siemens_svs (nifti_dicom2mat 0) now (example_img r c f p dw [] s [x0, x1, x2, x3])
     = Inr (\<lparr>shape = [2], flat = [Complex x0 (- x1), Complex x2 (- x3)]\<rparr>,
            NIFTIOrient [[- 20, 0, 0, - 1], [0, - 20, 0, - 2], [0, 0, 20, 3], [0, 0, 0, 1]],
            real dw * (1 / 10 ^ 9), example_meta now (PStr ''HEA;HEP''))"
  by (simp add: process_siemens_svs_def frombuffer_7fe1_1010_def example_elem example_decode4
        example_svs_geometry example_extract nifti_dicom2mat_def cross3_def near_zero_def
        negate_first_two_rows_def)
     (simp add: example_defs lookup_defs)

theorem orientation_geometry_error_witness:
  "(0::real) \<le> 0
   \<and> nifti_dicom2mat 0 [[1, 0, 0], [0, 1, 0]] [1, 2, 3] [20, 20, 20]
       = Inr [[20, 0, 0, 1], [0, 20, 0, 2], [0, 0, 20, 3], [0, 0, 0, 1]]
   \<and> valid_orientation [[- 20, 0, 0, - 1], [0, - 20, 0, - 2], [0, 0, 20, 3], [0, 0, 0, 1]]
   \<and> nifti_dicom2mat 0 [[1, 0, 0], [0, 1, 0]] [1, 2, 3] [20, 20, 0] = Inl GeometryError
   \<and> nifti_dicom2mat 0 [[1, 0, 0], [2, 0, 0]] [1, 2, 3] [20, 20, 20] = Inl GeometryError
   \<and> (\<exists>d dt m. process_siemens_svs (nifti_dicom2mat 0) ''now''
                  (example_img 1 1 1 2 500000 [] ''svs_press'' [1, 2, 3, 4])
        = Inr (d, NIFTIOrient [[- 20, 0, 0, - 1], [0, - 20, 0, - 2], [0, 0, 20, 3], [0, 0, 0, 1]], dt, m))
   \<and> process_siemens_svs (nifti_dicom2mat 0) ''now'' example_img_flat = Inl GeometryError"
proof -
  have zero: "(0::real) \<le> 0" by simp
  note T = orientation_geometry_error [OF zero]
  note T1 = T [THEN conjunct1, rule_format]
  note T4 = T [THEN conjunct2, THEN conjunct2, THEN conjunct2, THEN conjunct1, rule_format]
  have q: "nifti_dicom2mat 0 [[1, 0, 0], [0, 1, 0]] [1, 2, 3] [20, 20, 20]
       = Inr [[20, 0, 0, 1], [0, 20, 0, 2], [0, 0, 20, 3], [0, 0, 0, 1]]"
    by (simp add: nifti_dicom2mat_def cross3_def near_zero_def)
  have v: "valid_orientation [[- 20, 0, 0, - 1], [0, - 20, 0, - 2], [0, 0, 20, 3], [0, 0, 0, 1]]"
    using T1 [of "[[1, 0, 0], [0, 1, 0]]" "[1, 2, 3]" "[20, 20, 20]", THEN conjunct2, THEN conjunct2,
        rule_format, OF _ _ _ q]
    by (simp add: negate_first_two_rows_def)
  have g1: "nifti_dicom2mat 0 [[1, 0, 0], [0, 1, 0]] [1, 2, 3] [20, 20, 0] = Inl GeometryError"
    using T1 [of "[[1, 0, 0], [0, 1, 0]]" "[1, 2, 3]" "[20, 20, 0]", THEN conjunct1]
    by simp
  have g2: "nifti_dicom2mat 0 [[1, 0, 0], [2, 0, 0]] [1, 2, 3] [20, 20, 20] = Inl GeometryError"
    using T1 [of "[[1, 0, 0], [2, 0, 0]]" "[1, 2, 3]" "[20, 20, 20]", THEN conjunct1]
    by (simp add: near_zero_def cross3_def)
  have p: "process_siemens_svs (nifti_dicom2mat 0) ''now'' example_img_flat = Inl GeometryError"
    using T4 [of example_img_flat "[1, 2, 3, 4]" _ "[[1, 0, 0], [0, 1, 0]]" "[1, 2, 3]" "[20, 20, 0]" "''now''",
        OF _ example_decode4 example_svs_geometry(2)]
    by (simp add: example_img_flat_def example_dcm_def)
  show ?thesis
    using zero q v g1 g2 p
      example_process_svs_modelled [of "''now''" 1 1 1 2 500000 "''svs_press''" 1 2 3 4]
    by blast
qed

end
